theory Spec2Isabelle
  imports Main "HOL-Library.Sublist" "HOL-Library.Word"
begin

section \<open>argv: the tokenizer (argv/tokenize.go)\<close>

text \<open>
  Go's \<^verbatim>\<open>for _, c := range line\<close> walks the runes of the line, so the input of the model
  is the list of runes (code points) that the loop sees.  A token is a Go string, a
  sequence of bytes: \<^verbatim>\<open>string(c)\<close> appends the UTF-8 encoding of the rune and
  \<^verbatim>\<open>string([]byte{byte(acc)})\<close> appends one raw byte.
\<close>

type_synonym rune = nat

definition utf8 :: "rune \<Rightarrow> string" where
  "utf8 c =
     (if c < 128 then [char_of c]
      else if c < 2048 then [char_of (192 + c div 64), char_of (128 + c mod 64)]
      else if (55296 \<le> c \<and> c < 57344) \<or> 1114111 < c then [char_of (239::nat), char_of (191::nat), char_of (189::nat)]
      else if c < 65536 then
        [char_of (224 + c div 4096), char_of (128 + (c div 64) mod 64), char_of (128 + c mod 64)]
      else
        [char_of (240 + c div 262144), char_of (128 + (c div 4096) mod 64),
         char_of (128 + (c div 64) mod 64), char_of (128 + c mod 64)])"

text \<open>\<^verbatim>\<open>unicode.IsSpace\<close> of the Go library: the white space code points.\<close>

definition IsSpace :: "rune \<Rightarrow> bool" where
  "IsSpace c \<longleftrightarrow>
     (9 \<le> c \<and> c \<le> 13) \<or> c = 32 \<or> c = 133 \<or> c = 160 \<or> c = 5760 \<or>
     (8192 \<le> c \<and> c \<le> 8202) \<or> c = 8232 \<or> c = 8233 \<or> c = 8239 \<or> c = 8287 \<or> c = 12288"

text \<open>
  \<^verbatim>\<open>octal\<close> and \<open>hexadecimal\<close> return the digit's value, or \<open>-1\<close>.  As in the source,
  \<^verbatim>\<open>octal\<close> tests against \<^verbatim>\<open>'9'\<close>.
\<close>

definition octal :: "rune \<Rightarrow> int" where
  "octal c = (if 48 \<le> c \<and> c \<le> 57 then int c - 48 else - 1)"

definition hexadecimal :: "rune \<Rightarrow> int" where
  "hexadecimal c =
     (if 48 \<le> c \<and> c \<le> 57 then int c - 48
      else if 97 \<le> c \<and> c \<le> 102 then int c - 97 + 10
      else if 65 \<le> c \<and> c \<le> 70 then int c - 65 + 10
      else - 1)"

datatype tkState = tkSpace | tkWord | tkQuote | tkQuoteBs | tkHex1 | tkHex2 | tkOct1 | tkOct2

record tokenizer =
  state :: tkState
  token :: string
  acc :: int
  tokens :: "string list"

definition tk_init :: tokenizer where
  "tk_init = \<lparr>state = tkSpace, token = [], acc = 0, tokens = []\<rparr>"

text \<open>\<^verbatim>\<open>byte(acc)\<close>: the low eight bits.\<close>

definition byte_of :: "int \<Rightarrow> char" where
  "byte_of a = char_of (a mod 256)"

text \<open>The branch of the loop body shared by the hexadecimal and the octal states when
  the rune is not a digit.\<close>

definition tk_flush :: "tokenizer \<Rightarrow> rune \<Rightarrow> tokenizer" where
  "tk_flush t c =
     (let t1 = t\<lparr>token := token t @ [byte_of (acc t)]\<rparr>
      in if c = 34 then t1\<lparr>state := tkWord\<rparr>
         else t1\<lparr>token := token t1 @ utf8 c, state := tkQuote\<rparr>)"

text \<open>One iteration of the loop of \<^verbatim>\<open>Tokenize\<close>.\<close>

definition tk_step :: "tokenizer \<Rightarrow> rune \<Rightarrow> tokenizer" where
  "tk_step t c =
     (case state t of
        tkQuote \<Rightarrow>
          (if c = 92 then t\<lparr>state := tkQuoteBs\<rparr>
           else if c = 34 then t\<lparr>state := tkWord\<rparr>
           else t\<lparr>token := token t @ utf8 c\<rparr>)
      | tkQuoteBs \<Rightarrow>
          (if c = 120 \<or> c = 88 then t\<lparr>acc := 0, state := tkHex1\<rparr>
           else if 48 \<le> c \<and> c \<le> 55 then t\<lparr>acc := int c - 48, state := tkOct1\<rparr>
           else if c = 97 then t\<lparr>token := token t @ [char_of (7::nat)], state := tkQuote\<rparr>
           else if c = 98 then t\<lparr>token := token t @ [char_of (8::nat)], state := tkQuote\<rparr>
           else if c = 102 then t\<lparr>token := token t @ [char_of (12::nat)], state := tkQuote\<rparr>
           else if c = 110 then t\<lparr>token := token t @ [char_of (10::nat)], state := tkQuote\<rparr>
           else if c = 114 then t\<lparr>token := token t @ [char_of (13::nat)], state := tkQuote\<rparr>
           else if c = 116 then t\<lparr>token := token t @ [char_of (9::nat)], state := tkQuote\<rparr>
           else if c = 118 then t\<lparr>token := token t @ [char_of (11::nat)], state := tkQuote\<rparr>
           else t\<lparr>token := token t @ utf8 c, state := tkQuote\<rparr>)
      | tkHex1 \<Rightarrow>
          (let n = hexadecimal c
           in if n \<ge> 0 then t\<lparr>acc := or (push_bit 4 (acc t)) n, state := tkHex2\<rparr>
              else tk_flush t c)
      | tkHex2 \<Rightarrow>
          (let n = hexadecimal c
           in if n \<ge> 0 then
                (let a = or (push_bit 4 (acc t)) n
                 in t\<lparr>acc := a, token := token t @ [byte_of a], state := tkQuote\<rparr>)
              else tk_flush t c)
      | tkOct1 \<Rightarrow>
          (let n = octal c
           in if n \<ge> 0 then t\<lparr>acc := or (push_bit 3 (acc t)) n, state := tkOct2\<rparr>
              else tk_flush t c)
      | tkOct2 \<Rightarrow>
          (let n = octal c
           in if n \<ge> 0 then
                (let a = or (push_bit 3 (acc t)) n
                 in t\<lparr>acc := a, token := token t @ [byte_of a], state := tkQuote\<rparr>)
              else tk_flush t c)
      | _ \<Rightarrow>
          (if c = 34 then t\<lparr>state := tkQuote\<rparr>
           else if IsSpace c then
             (if state t \<noteq> tkSpace
              then t\<lparr>tokens := tokens t @ [token t], token := [], state := tkSpace\<rparr>
              else t)
           else t\<lparr>state := tkWord, token := token t @ utf8 c\<rparr>))"

datatype tk_error = UnterminatedString

text \<open>
  The result of \<^verbatim>\<open>Tokenize\<close> is Go's pair \<^verbatim>\<open>([]string, error)\<close>: the slice is
  \<open>None\<close> when the function returns \<^verbatim>\<open>nil\<close> for it, the error is \<open>None\<close> when it
  returns \<^verbatim>\<open>nil\<close> for it.
\<close>

definition tk_finish :: "tokenizer \<Rightarrow> string list option \<times> tk_error option" where
  "tk_finish t =
     (case state t of
        tkSpace \<Rightarrow> (Some (tokens t), None)
      | tkWord \<Rightarrow> (Some (tokens t @ [token t]), None)
      | _ \<Rightarrow> (None, Some UnterminatedString))"

definition Tokenize :: "rune list \<Rightarrow> string list option \<times> tk_error option" where
  "Tokenize line = tk_finish (foldl tk_step tk_init line)"

section \<open>argv: selecting a sub-command (argv/parser.go)\<close>

text \<open>
  A \<^verbatim>\<open>Command\<close> carries its name and its sub-commands, themselves commands.  Help
  texts, options, parameters and the handler play no part in the selection of a
  sub-command and are left out of the record.
\<close>

datatype Command = Command (Name: string) (SubCommands: "Command list")

datatype argv_error = UnknownSubCommand string | AmbiguousSubCommand string

text \<open>The fields of \<^verbatim>\<open>parser\<close> that \<^verbatim>\<open>handleSubCommand\<close> reads and writes.\<close>

record parser =
  cmd :: Command
  argv :: "string list"
  nextarg :: nat
  subcmd :: "Command option"
  subargv :: "string list"

text \<open>
  The loop of \<^verbatim>\<open>findSubCommand\<close> over \<^verbatim>\<open>prs.cmd.SubCommands\<close>, with the slice
  \<^verbatim>\<open>inexact\<close> as accumulator: an exact match returns at once with that command alone,
  a name that starts with the argument is appended to the candidates.
\<close>

fun findSubCommand_loop :: "string \<Rightarrow> Command list \<Rightarrow> Command list \<Rightarrow> Command list" where
  "findSubCommand_loop name [] inexact = inexact"
| "findSubCommand_loop name (sc # rest) inexact =
     (if name = Name sc then [sc]
      else if prefix name (Name sc) then findSubCommand_loop name rest (inexact @ [sc])
      else findSubCommand_loop name rest inexact)"

definition findSubCommand :: "parser \<Rightarrow> string \<Rightarrow> Command list" where
  "findSubCommand prs name = findSubCommand_loop name (SubCommands (cmd prs)) []"

definition handleSubCommand :: "parser \<Rightarrow> string \<Rightarrow> argv_error + parser" where
  "handleSubCommand prs arg =
     (case findSubCommand prs arg of
        [] \<Rightarrow> Inl (UnknownSubCommand arg)
      | [sc] \<Rightarrow> Inr (prs\<lparr>subcmd := Some sc, subargv := drop (nextarg prs) (argv prs)\<rparr>)
      | _ \<Rightarrow> Inl (AmbiguousSubCommand arg))"

text \<open>A parser to run the selection on: the command \<^verbatim>\<open>dev\<close> with three sub-commands.\<close>

definition sample_parser :: parser where
  "sample_parser =
     \<lparr>cmd = Command ''dev'' [Command ''list'' [], Command ''load'' [], Command ''li'' []],
      argv = [''li'', ''-v''], nextarg = 1, subcmd = None, subargv = []\<rparr>"

section \<open>transport: the auto-TLS listener\<close>

text \<open>
  What the listener sees of a connection handed out by the parent listener:
  \<^item> whether the value implements \<^verbatim>\<open>SyscallConn()\<close> (the type assertion in
    \<^verbatim>\<open>detectTLS\<close>) and, if so, whether the call succeeds;
  \<^item> the outcomes of the successive \<^verbatim>\<open>syscall.Recvfrom(fd, buf, MSG_PEEK)\<close> calls on
    its descriptor: some bytes, or an error number.  No bytes and no error is the
    outcome \<open>Peeked []\<close>.
\<close>

type_synonym byte = "8 word"

datatype errno = EAGAIN | EWOULDBLOCK | ECONNRESET | EBADF

datatype recv = Peeked "byte list" | Failed errno

datatype syscallconn = NoSyscallConn | SyscallConnFails | SyscallConnOK

record conn =
  fd :: nat
  syscallconn :: syscallconn
  peeks :: "recv list"

record autoTLSListener =
  haveAccepter :: bool
  closed :: bool
  plain :: "conn list"
  encrypted :: "conn list"
  pending :: "conn set"

definition NewAutoTLSListener :: autoTLSListener where
  "NewAutoTLSListener =
     \<lparr>haveAccepter = False, closed = False, plain = [], encrypted = [], pending = {}\<rparr>"

text \<open>The queue operations \<^verbatim>\<open>push\<close>, \<^verbatim>\<open>pull\<close> and \<^verbatim>\<open>pullAll\<close>.\<close>

definition push :: "conn list \<Rightarrow> conn \<Rightarrow> conn list" where
  "push q c = q @ [c]"

definition pull :: "conn list \<Rightarrow> conn option \<times> conn list" where
  "pull q = (case q of [] \<Rightarrow> (None, []) | c # rest \<Rightarrow> (Some c, rest))"

definition pullAll :: "conn list \<Rightarrow> conn list \<times> conn list" where
  "pullAll q = (q, [])"

text \<open>
  \<^verbatim>\<open>rawconn.Read\<close> calls the closure of \<^verbatim>\<open>detectTLSRawConn\<close> once per outcome until
  the closure returns true.  The closure's variables are the buffer and the error (the
  function's named result).  When the outcomes run out, \<^verbatim>\<open>Read\<close> itself has given up
  (the descriptor was closed); its own error is not looked at by the source.
\<close>

fun rawconn_Read :: "recv list \<Rightarrow> byte list \<times> errno option \<Rightarrow> byte list \<times> errno option" where
  "rawconn_Read [] (buf, err) = (buf, err)"
| "rawconn_Read (Peeked bs # rest) (buf, err) =
     (if 0 < length bs then (take (length buf) bs, None) else (buf, None))"
| "rawconn_Read (Failed e # rest) (buf, err) =
     (if e \<noteq> EAGAIN \<and> e \<noteq> EWOULDBLOCK then (buf, Some e)
      else rawconn_Read rest (buf, Some e))"

text \<open>
  \<^verbatim>\<open>detectTLSRawConn\<close>: a buffer of 16 zero bytes, the peek, and the test of the first
  byte against \<open>0x16\<close>.  The error it returns is always \<^verbatim>\<open>nil\<close>.  The buffer is never
  empty when its first byte is read.
\<close>

definition detectTLSRawConn :: "recv list \<Rightarrow> bool \<times> errno option" where
  "detectTLSRawConn outcomes =
     (case rawconn_Read outcomes (replicate 16 0, None) of
        (buf, None) \<Rightarrow> ((case buf of [] \<Rightarrow> False | b # _ \<Rightarrow> b = 0x16), None)
      | (buf, Some e) \<Rightarrow> (False, None))"

definition detectTLS :: "conn \<Rightarrow> bool \<times> errno option" where
  "detectTLS c =
     (case syscallconn c of
        SyscallConnOK \<Rightarrow> detectTLSRawConn (peeks c)
      | _ \<Rightarrow> (False, None))"

text \<open>
  \<^verbatim>\<open>close\<close>: marks the listener closed, empties both queues and the pending set, and
  closes every connection taken from them.  The second component is the set of
  connections on which \<^verbatim>\<open>Close()\<close> is called.
\<close>

definition close_listener :: "autoTLSListener \<Rightarrow> autoTLSListener \<times> conn set" where
  "close_listener atl =
     (atl\<lparr>closed := True, plain := snd (pullAll (plain atl)),
          encrypted := snd (pullAll (encrypted atl)), pending := {}\<rparr>,
      set (fst (pullAll (plain atl))) \<union> set (fst (pullAll (encrypted atl))) \<union> pending atl)"

text \<open>
  \<^verbatim>\<open>acceptWait\<close>.  \<open>accepted\<close> is the result of \<^verbatim>\<open>atl.parent.Accept()\<close>.  The function
  releases the lock while it detects TLS; \<open>closeMeanwhile\<close> says whether another
  goroutine runs \<^verbatim>\<open>close\<close> in that window.  The result is the error returned, the
  listener afterwards, and the connections that were closed.
\<close>

definition acceptWait ::
  "autoTLSListener \<Rightarrow> errno + conn \<Rightarrow> bool \<Rightarrow> errno option \<times> autoTLSListener \<times> conn set" where
  "acceptWait atl accepted closeMeanwhile =
     (case accepted of
        Inl err \<Rightarrow> (Some err, atl, {})
      | Inr c \<Rightarrow>
          if closed atl then (None, atl, {c})
          else
            let atl1 = atl\<lparr>pending := insert c (pending atl)\<rparr>;
                (atl2, dropped) = (if closeMeanwhile then close_listener atl1 else (atl1, {}));
                (withTLS, err) = detectTLS c;
                atl3 = atl2\<lparr>pending := pending atl2 - {c}\<rparr>
            in (case err of
                  Some e \<Rightarrow> (None, atl3, insert c dropped)
                | None \<Rightarrow>
                    if closed atl3 then (None, atl3, insert c dropped)
                    else if withTLS then (None, atl3\<lparr>encrypted := push (encrypted atl3) c\<rparr>, dropped)
                    else (None, atl3\<lparr>plain := push (plain atl3) c\<rparr>, dropped)))"

text \<open>Two connections to run the listener on: a TLS client hello after one
  \<^verbatim>\<open>EAGAIN\<close>, and a connection without \<^verbatim>\<open>SyscallConn()\<close> that would send one too.\<close>

definition tls_conn :: conn where
  "tls_conn = \<lparr>fd = 7, syscallconn = SyscallConnOK, peeks = [Failed EAGAIN, Peeked [0x16, 0x03, 0x01]]\<rparr>"

definition http_conn :: conn where
  "http_conn = \<lparr>fd = 8, syscallconn = SyscallConnOK, peeks = [Peeked [0x47, 0x45, 0x54]]\<rparr>"

definition pipe_conn :: conn where
  "pipe_conn = \<lparr>fd = 9, syscallconn = NoSyscallConn, peeks = [Peeked [0x16, 0x03, 0x01]]\<rparr>"

section \<open>wsdd: the probe/resolve scheduler (discovery/wsdd/sched.go)\<close>

text \<open>
  The scheduler's goroutine \<^verbatim>\<open>proc\<close> sends events on the channel and sleeps on the
  timer.  The model gives \<^verbatim>\<open>proc\<close> the results of the successive \<^verbatim>\<open>s.timer.Sleep\<close>
  calls (\<open>False\<close>: the timer was cancelled by \<^verbatim>\<open>Close\<close>) and, for the resolve mode, the
  time elapsed since \<^verbatim>\<open>start\<close> at each reading of the clock, in milliseconds.  It
  returns the events sent, in order, and how the observation ends.  The lengths of the
  pauses (a random one inside a retransmit series) do not influence the events.
\<close>

datatype schedEvent = schedClosed | schedNewMessage | schedSend

definition schedRetransmitSeriesLen :: nat where "schedRetransmitSeriesLen = 4"
definition schedFastSeriesLen :: nat where "schedFastSeriesLen = 2"
definition schedResolveMaxTime :: nat where "schedResolveMaxTime = 5000"

text \<open>
  How a loop is left: \<open>Continue\<close> when its condition ends it (with what is left of the
  timer results and clock readings), \<open>Returned\<close> when \<^verbatim>\<open>proc\<close> returns and the channel
  is closed, \<open>Blocked\<close> when the given timer results or clock readings are used up:
  the goroutine is still running and the events are a prefix of what it sends.
\<close>

datatype 'a exit = Continue 'a | Returned | Blocked

text \<open>The retransmit series: the loop \<^verbatim>\<open>for tx := 0; tx < schedRetransmitSeriesLen; tx++\<close>,
  started at \<open>tx\<close>.\<close>

fun retransmit :: "nat \<Rightarrow> bool list \<Rightarrow> schedEvent list \<times> bool list exit" where
  "retransmit tx [] =
     (if tx < schedRetransmitSeriesLen then ([schedSend], Blocked) else ([], Continue []))"
| "retransmit tx (ok # rest) =
     (if tx < schedRetransmitSeriesLen then
        (if \<not> ok then ([schedSend], Returned)
         else (case retransmit (tx + 1) rest of (evs, ex) \<Rightarrow> (schedSend # evs, ex)))
      else ([], Continue (ok # rest)))"

text \<open>\<^verbatim>\<open>resolveTimedOut\<close> reads the clock in resolve mode only.\<close>

definition resolveTimedOut :: "bool \<Rightarrow> nat list \<Rightarrow> bool option \<times> nat list" where
  "resolveTimedOut resolve clock =
     (if \<not> resolve then (Some False, clock)
      else (case clock of
              [] \<Rightarrow> (None, [])
            | elapsed # clock' \<Rightarrow> (Some (elapsed \<ge> schedResolveMaxTime), clock')))"

text \<open>
  One iteration of the loop \<^verbatim>\<open>for fastCnt := 0; fastCnt < schedFastSeriesLen;\<close>: a new
  message, its retransmit series, the pause \<^verbatim>\<open>schedFastSeriesDelay\<close>, the count and
  the resolve timeout.
\<close>

definition fastIteration ::
  "bool \<Rightarrow> nat \<Rightarrow> bool list \<Rightarrow> nat list \<Rightarrow> schedEvent list \<times> (nat \<times> bool list \<times> nat list) exit" where
  "fastIteration resolve fastCnt sleeps clock =
     (case retransmit 0 sleeps of
        (evs, Returned) \<Rightarrow> (schedNewMessage # evs, Returned)
      | (evs, Blocked) \<Rightarrow> (schedNewMessage # evs, Blocked)
      | (evs, Continue []) \<Rightarrow> (schedNewMessage # evs, Blocked)
      | (evs, Continue (ok # sleeps')) \<Rightarrow>
          if \<not> ok then (schedNewMessage # evs, Returned)
          else
            (let fastCnt' = (if \<not> resolve then fastCnt + 1 else fastCnt)
             in case resolveTimedOut resolve clock of
                  (None, clock') \<Rightarrow> (schedNewMessage # evs, Blocked)
                | (Some True, clock') \<Rightarrow> (schedNewMessage # evs, Returned)
                | (Some False, clock') \<Rightarrow>
                    (schedNewMessage # evs, Continue (fastCnt', sleeps', clock'))))"

lemma retransmit_rest: "retransmit tx sl = (evs, Continue sl') \<Longrightarrow> length sl' \<le> length sl"
  by (induction sl arbitrary: tx evs) (auto split: if_splits prod.splits simp: le_SucI)

lemma fastIteration_rest:
  "fastIteration r n sl clk = (evs, Continue (n', sl', clk')) \<Longrightarrow> length sl' < length sl"
  by (auto simp: fastIteration_def Let_def
      split: prod.splits exit.splits list.splits if_splits option.splits bool.splits
      dest!: retransmit_rest)

function fastSeries ::
  "bool \<Rightarrow> nat \<Rightarrow> bool list \<Rightarrow> nat list \<Rightarrow> schedEvent list \<times> (bool list \<times> nat list) exit" where
  "fastSeries resolve fastCnt sleeps clock =
     (if fastCnt < schedFastSeriesLen then
        (case fastIteration resolve fastCnt sleeps clock of
           (evs, Returned) \<Rightarrow> (evs, Returned)
         | (evs, Blocked) \<Rightarrow> (evs, Blocked)
         | (evs, Continue (fastCnt', sleeps', clock')) \<Rightarrow>
             (case fastSeries resolve fastCnt' sleeps' clock' of
                (evs', ex) \<Rightarrow> (evs @ evs', ex)))
      else ([], Continue (sleeps, clock)))"
  by pat_completeness auto
termination
  by (relation "measure (\<lambda>(resolve, fastCnt, sleeps, clock). length sleeps)")
     (auto dest: fastIteration_rest [OF sym])

declare fastSeries.simps [simp del]

lemma fastSeries_rest:
  "fastSeries r n sl clk = (evs, Continue (sl', clk')) \<Longrightarrow> length sl' \<le> length sl"
proof (induction r n sl clk arbitrary: evs rule: fastSeries.induct)
  case (1 resolve fastCnt sleeps clock)
  show ?case
  proof (cases "fastCnt < schedFastSeriesLen")
    case False
    with "1.prems" show ?thesis by (simp add: fastSeries.simps [of resolve fastCnt])
  next
    case True
    obtain evs1 ex1 where it: "fastIteration resolve fastCnt sleeps clock = (evs1, ex1)"
      by force
    show ?thesis
    proof (cases ex1)
      case (Continue st)
      obtain n1 sl1 clk1 where st: "st = (n1, sl1, clk1)" by (cases st) auto
      obtain evs2 ex2 where rec: "fastSeries resolve n1 sl1 clk1 = (evs2, ex2)" by force
      from "1.prems" True it Continue st rec have "ex2 = Continue (sl', clk')"
        by (simp add: fastSeries.simps [of resolve fastCnt])
      with rec have "fastSeries resolve n1 sl1 clk1 = (evs2, Continue (sl', clk'))" by simp
      from "1.IH" [OF True it [symmetric] Continue st [symmetric] refl this]
      have "length sl' \<le> length sl1" .
      moreover from it Continue st have "length sl1 < length sleeps"
        by (auto dest: fastIteration_rest)
      ultimately show ?thesis by simp
    qed (use "1.prems" True it in \<open>simp_all add: fastSeries.simps [of resolve fastCnt]\<close>)
  qed
qed

text \<open>The outer loop of \<^verbatim>\<open>proc\<close>: a fast series, then the pause
  \<^verbatim>\<open>schedInterSeriesDelay\<close>.\<close>

function proc :: "bool \<Rightarrow> bool list \<Rightarrow> nat list \<Rightarrow> schedEvent list \<times> unit exit" where
  "proc resolve sleeps clock =
     (case fastSeries resolve 0 sleeps clock of
        (evs, Returned) \<Rightarrow> (evs, Returned)
      | (evs, Blocked) \<Rightarrow> (evs, Blocked)
      | (evs, Continue ([], clock')) \<Rightarrow> (evs, Blocked)
      | (evs, Continue (ok # sleeps', clock')) \<Rightarrow>
          if \<not> ok then (evs, Returned)
          else (case proc resolve sleeps' clock' of (evs', ex) \<Rightarrow> (evs @ evs', ex)))"
  by pat_completeness auto
termination
  by (relation "measure (\<lambda>(resolve, sleeps, clock). length sleeps)")
     (auto dest: fastSeries_rest [OF sym])

declare proc.simps [simp del]

text \<open>
  Reading a sequence of events: \<open>block k\<close> is a new message followed by \<open>k\<close> sends,
  and \<open>series_lengths\<close> splits a sequence that starts with a new message into such
  blocks and returns the number of sends after each new message.
\<close>

definition block :: "nat \<Rightarrow> schedEvent list" where
  "block k = schedNewMessage # replicate k schedSend"

function series_lengths :: "schedEvent list \<Rightarrow> nat list option" where
  "series_lengths [] = Some []"
| "series_lengths (schedNewMessage # evs) =
     (case series_lengths (dropWhile (\<lambda>e. e = schedSend) evs) of
        None \<Rightarrow> None
      | Some ks \<Rightarrow> Some (length (takeWhile (\<lambda>e. e = schedSend) evs) # ks))"
| "series_lengths (schedSend # evs) = None"
| "series_lengths (schedClosed # evs) = None"
  by pat_completeness auto
termination
  by (relation "measure length") (auto simp: length_dropWhile_le le_imp_less_Suc)

definition paced :: "nat list \<Rightarrow> bool" where
  "paced ks \<longleftrightarrow>
     list_all (\<lambda>k. 1 \<le> k \<and> k \<le> schedRetransmitSeriesLen) ks \<and>
     list_all (\<lambda>k. k = schedRetransmitSeriesLen) (butlast ks)"

section \<open>abstract: the scan request validator (abstract/scanrequest.go)\<close>

text \<open>
  Modelled from the spec: the declarations of the enumerations of the package (input,
  ADF mode, color mode, depth, binary rendering, CCD channel, intent) are not among the
  sources.  Each is a Go integer type; its constants count up from the unset value 0
  and end with the bound that \<^verbatim>\<open>Validate\<close> compares against.  A value of such a type
  can be any integer.
\<close>

definition InputUnset :: int where "InputUnset = 0"
definition InputPlaten :: int where "InputPlaten = 1"
definition InputADF :: int where "InputADF = 2"
definition inputMax :: int where "inputMax = 3"

definition ADFModeUnset :: int where "ADFModeUnset = 0"
definition ADFModeSimplex :: int where "ADFModeSimplex = 1"
definition ADFModeDuplex :: int where "ADFModeDuplex = 2"
definition adfModeMax :: int where "adfModeMax = 3"

definition ColorModeUnset :: int where "ColorModeUnset = 0"
definition ColorModeBinary :: int where "ColorModeBinary = 1"
definition ColorModeMono :: int where "ColorModeMono = 2"
definition ColorModeColor :: int where "ColorModeColor = 3"
definition colorModeMax :: int where "colorModeMax = 4"

definition DepthUnset :: int where "DepthUnset = 0"
definition depthMax :: int where "depthMax = 3"

definition BinaryRenderingUnset :: int where "BinaryRenderingUnset = 0"
definition binaryRenderingMax :: int where "binaryRenderingMax = 3"

definition CCDChannelUnset :: int where "CCDChannelUnset = 0"
definition ccdChannelMax :: int where "ccdChannelMax = 7"

text \<open>\<^verbatim>\<open>generic.Bitset[T]\<close>, a set of values of an enumeration.\<close>

type_synonym Bitset = "int set"

datatype ErrKind = ErrInvalidParam | ErrUnsupportedParam

datatype ErrParam = ErrParam ErrKind string int

text \<open>
  Modelled from the spec: \<^verbatim>\<open>Range\<close> and its method \<^verbatim>\<open>validate\<close> are not among the
  sources.  A range of the capabilities may be absent.  An unset value is accepted; a
  value against an absent range is \<^verbatim>\<open>ErrUnsupportedParam\<close>; a value against a range
  must satisfy \<open>Min \<le> value \<le> Max\<close> and lie on the \<open>Step\<close> grid when a step is
  given (a step of 0 is none).
\<close>

record Range =
  rMin :: int
  rMax :: int
  rStep :: int

definition range_validate :: "Range option \<Rightarrow> string \<Rightarrow> int option \<Rightarrow> ErrParam option" where
  "range_validate r name v =
     (case v of
        None \<Rightarrow> None
      | Some x \<Rightarrow>
          (case r of
             None \<Rightarrow> Some (ErrParam ErrUnsupportedParam name x)
           | Some rg \<Rightarrow>
               if rMin rg \<le> x \<and> x \<le> rMax rg \<and> (rStep rg = 0 \<or> (x - rMin rg) mod rStep rg = 0)
               then None
               else Some (ErrParam ErrInvalidParam name x)))"

record SettingsProfile =
  ColorModes :: Bitset
  Depths :: Bitset
  BinaryRenderings :: Bitset
  CCDChannels :: Bitset

record InputCapabilities =
  Intents :: Bitset
  Profiles :: "SettingsProfile list"

record ScannerCapabilities =
  Platen :: "InputCapabilities option"
  ADFSimplex :: "InputCapabilities option"
  ADFDuplex :: "InputCapabilities option"
  BrightnessRange :: "Range option"
  ContrastRange :: "Range option"
  GammaRange :: "Range option"
  HighlightRange :: "Range option"
  NoiseRemovalRange :: "Range option"
  ShadowRange :: "Range option"
  SharpenRange :: "Range option"
  ThresholdRange :: "Range option"
  CompressionRange :: "Range option"

text \<open>The request.  Its fields \<^verbatim>\<open>Region\<close> and \<^verbatim>\<open>Resolution\<close> are not read by
  \<^verbatim>\<open>Validate\<close> and are left out; the set of intents that \<^verbatim>\<open>Validate\<close> gathers is
  not used by it either.\<close>

record ScannerRequest =
  Input :: int
  ADFMode :: int
  ColorMode :: int
  Depth :: int
  BinaryRendering :: int
  CCDChannel :: int
  DocumentFormat :: string
  Intent :: int
  Brightness :: "int option"
  Contrast :: "int option"
  Gamma :: "int option"
  Highlight :: "int option"
  NoiseRemoval :: "int option"
  Shadow :: "int option"
  Sharpen :: "int option"
  Threshold :: "int option"
  Compression :: "int option"

text \<open>The input capabilities that are present, in the order of the loop of
  \<^verbatim>\<open>Validate\<close>, and the sets gathered from them.\<close>

definition present_inputs :: "ScannerCapabilities \<Rightarrow> InputCapabilities list" where
  "present_inputs scancaps =
     concat (map (\<lambda>inpcaps. case inpcaps of None \<Rightarrow> [] | Some ic \<Rightarrow> [ic])
               [Platen scancaps, ADFSimplex scancaps, ADFDuplex scancaps])"

definition gather :: "(SettingsProfile \<Rightarrow> Bitset) \<Rightarrow> ScannerCapabilities \<Rightarrow> Bitset" where
  "gather sel scancaps = \<Union> (set (map sel (concat (map Profiles (present_inputs scancaps)))))"

text \<open>A statement that returns an error or falls through to the next one.\<close>

definition or_else :: "ErrParam option \<Rightarrow> ErrParam option \<Rightarrow> ErrParam option" where
  "or_else first rest = (case first of Some e \<Rightarrow> Some e | None \<Rightarrow> rest)"

text \<open>\<^verbatim>\<open>Validate\<close>: the switch statements of the source in their order, each returning
  its error or falling through.  The field name of the color mode errors is spelled
  as in the source.\<close>

definition Validate :: "ScannerRequest \<Rightarrow> ScannerCapabilities \<Rightarrow> ErrParam option" where
  "Validate req scancaps =
     (let inputs = (if Platen scancaps \<noteq> None then {InputPlaten} else {}) \<union>
                   (if ADFSimplex scancaps \<noteq> None \<or> ADFDuplex scancaps \<noteq> None
                    then {InputADF} else {});
          adfmodes = (if ADFSimplex scancaps \<noteq> None then {ADFModeSimplex} else {}) \<union>
                     (if ADFDuplex scancaps \<noteq> None then {ADFModeDuplex} else {});
          colorModes = gather ColorModes scancaps;
          depths = gather Depths scancaps;
          binrend = gather BinaryRenderings scancaps;
          ccdChannels = gather CCDChannels scancaps
      in
      or_else
        (if Input req = InputUnset then None
         else if Input req < 0 \<or> Input req \<ge> inputMax
           then Some (ErrParam ErrInvalidParam ''Input'' (Input req))
         else if Input req \<notin> inputs
           then Some (ErrParam ErrUnsupportedParam ''Input'' (Input req))
         else None)
     (or_else
        (if Input req \<noteq> InputADF then None
         else if ADFMode req = ADFModeUnset then None
         else if ADFMode req < 0 \<or> ADFMode req \<ge> adfModeMax
           then Some (ErrParam ErrInvalidParam ''ADFMode'' (ADFMode req))
         else if ADFMode req \<notin> adfmodes
           then Some (ErrParam ErrUnsupportedParam ''ADFMode'' (ADFMode req))
         else None)
     (or_else
        (if ColorMode req = ColorModeUnset then None
         else if ColorMode req < 0 \<or> ColorMode req \<ge> colorModeMax
           then Some (ErrParam ErrInvalidParam ''ColorMode,'' (ColorMode req))
         else if ColorMode req \<notin> colorModes
           then Some (ErrParam ErrUnsupportedParam ''ColorMode,'' (ColorMode req))
         else None)
     (or_else
        (if ColorMode req = ColorModeBinary then
           or_else
             (if BinaryRendering req = BinaryRenderingUnset then None
              else if BinaryRendering req < 0 \<or> BinaryRendering req \<ge> binaryRenderingMax
                then Some (ErrParam ErrInvalidParam ''BinaryRendering'' (BinaryRendering req))
              else if BinaryRendering req \<notin> binrend
                then Some (ErrParam ErrUnsupportedParam ''BinaryRendering'' (BinaryRendering req))
              else None)
             (range_validate (ThresholdRange scancaps) ''Threshold'' (Threshold req))
         else if ColorMode req = ColorModeMono \<or> ColorMode req = ColorModeColor then
           (if Depth req = DepthUnset then None
            else if Depth req < 0 \<or> Depth req \<ge> depthMax
              then Some (ErrParam ErrInvalidParam ''Depth'' (Depth req))
            else if Depth req \<notin> depths
              then Some (ErrParam ErrUnsupportedParam ''Depth'' (Depth req))
            else None)
         else None)
     (or_else
        (if CCDChannel req = CCDChannelUnset then None
         else if CCDChannel req < 0 \<or> CCDChannel req \<ge> ccdChannelMax
           then Some (ErrParam ErrInvalidParam ''CCDChannel'' (CCDChannel req))
         else if CCDChannel req \<notin> ccdChannels
           then Some (ErrParam ErrUnsupportedParam ''CCDChannel'' (CCDChannel req))
         else None)
     (or_else (range_validate (BrightnessRange scancaps) ''Brightness'' (Brightness req))
     (or_else (range_validate (ContrastRange scancaps) ''Contrast'' (Contrast req))
     (or_else (range_validate (GammaRange scancaps) ''Gamma'' (Gamma req))
     (or_else (range_validate (HighlightRange scancaps) ''Highlight'' (Highlight req))
     (or_else (range_validate (NoiseRemovalRange scancaps) ''NoiseRemoval'' (NoiseRemoval req))
     (or_else (range_validate (ShadowRange scancaps) ''Shadow'' (Shadow req))
     (or_else (range_validate (SharpenRange scancaps) ''Sharpen'' (Sharpen req))
       (range_validate (CompressionRange scancaps) ''Compression'' (Compression req))))))))))))))"

text \<open>
  The rules of the specification, to compare \<^verbatim>\<open>Validate\<close> with.  A rule for a field
  of an enumeration: unset is accepted, a value outside the enumeration is invalid, a
  value outside the supported set is unsupported.  \<open>first_failure\<close> returns the first
  error of a list of rule results.
\<close>

definition enum_rule :: "string \<Rightarrow> int \<Rightarrow> int \<Rightarrow> int \<Rightarrow> Bitset \<Rightarrow> ErrParam option" where
  "enum_rule name v unset bound supported =
     (if v = unset then None
      else if v < 0 \<or> bound \<le> v then Some (ErrParam ErrInvalidParam name v)
      else if v \<in> supported then None
      else Some (ErrParam ErrUnsupportedParam name v))"

definition first_failure :: "ErrParam option list \<Rightarrow> ErrParam option" where
  "first_failure results = (case dropWhile (\<lambda>r. r = None) results of [] \<Rightarrow> None | r # _ \<Rightarrow> r)"

definition supported_inputs :: "ScannerCapabilities \<Rightarrow> Bitset" where
  "supported_inputs scancaps =
     {i. (i = InputPlaten \<and> Platen scancaps \<noteq> None) \<or>
         (i = InputADF \<and> (ADFSimplex scancaps \<noteq> None \<or> ADFDuplex scancaps \<noteq> None))}"

definition supported_adfmodes :: "ScannerCapabilities \<Rightarrow> Bitset" where
  "supported_adfmodes scancaps =
     {m. (m = ADFModeSimplex \<and> ADFSimplex scancaps \<noteq> None) \<or>
         (m = ADFModeDuplex \<and> ADFDuplex scancaps \<noteq> None)}"

definition rules_before_color :: "ScannerRequest \<Rightarrow> ScannerCapabilities \<Rightarrow> ErrParam option list" where
  "rules_before_color req scancaps =
     [enum_rule ''Input'' (Input req) InputUnset inputMax (supported_inputs scancaps),
      (if Input req = InputADF
       then enum_rule ''ADFMode'' (ADFMode req) ADFModeUnset adfModeMax (supported_adfmodes scancaps)
       else None),
      enum_rule ''ColorMode,'' (ColorMode req) ColorModeUnset colorModeMax
        (gather ColorModes scancaps)]"

definition rules_binary :: "ScannerRequest \<Rightarrow> ScannerCapabilities \<Rightarrow> ErrParam option list" where
  "rules_binary req scancaps =
     [enum_rule ''BinaryRendering'' (BinaryRendering req) BinaryRenderingUnset binaryRenderingMax
        (gather BinaryRenderings scancaps),
      range_validate (ThresholdRange scancaps) ''Threshold'' (Threshold req)]"

definition rules_depth :: "ScannerRequest \<Rightarrow> ScannerCapabilities \<Rightarrow> ErrParam option list" where
  "rules_depth req scancaps =
     [enum_rule ''Depth'' (Depth req) DepthUnset depthMax (gather Depths scancaps)]"

definition rules_after_color :: "ScannerRequest \<Rightarrow> ScannerCapabilities \<Rightarrow> ErrParam option list" where
  "rules_after_color req scancaps =
     [enum_rule ''CCDChannel'' (CCDChannel req) CCDChannelUnset ccdChannelMax
        (gather CCDChannels scancaps),
      range_validate (BrightnessRange scancaps) ''Brightness'' (Brightness req),
      range_validate (ContrastRange scancaps) ''Contrast'' (Contrast req),
      range_validate (GammaRange scancaps) ''Gamma'' (Gamma req),
      range_validate (HighlightRange scancaps) ''Highlight'' (Highlight req),
      range_validate (NoiseRemovalRange scancaps) ''NoiseRemoval'' (NoiseRemoval req),
      range_validate (ShadowRange scancaps) ''Shadow'' (Shadow req),
      range_validate (SharpenRange scancaps) ''Sharpen'' (Sharpen req),
      range_validate (CompressionRange scancaps) ''Compression'' (Compression req)]"

text \<open>The rules as the specification states them: binary rendering and threshold for
  the binary color mode, "else validate \<open>Depth\<close>".\<close>

definition rules_as_stated :: "ScannerRequest \<Rightarrow> ScannerCapabilities \<Rightarrow> ErrParam option list" where
  "rules_as_stated req scancaps =
     rules_before_color req scancaps @
     (if ColorMode req = ColorModeBinary then rules_binary req scancaps
      else rules_depth req scancaps) @
     rules_after_color req scancaps"

text \<open>The rules with the depth validated for the mono and color modes only.\<close>

definition rules_by_mode :: "ScannerRequest \<Rightarrow> ScannerCapabilities \<Rightarrow> ErrParam option list" where
  "rules_by_mode req scancaps =
     rules_before_color req scancaps @
     (if ColorMode req = ColorModeBinary then rules_binary req scancaps
      else if ColorMode req = ColorModeMono \<or> ColorMode req = ColorModeColor
        then rules_depth req scancaps
      else []) @
     rules_after_color req scancaps"

text \<open>Capabilities and a request to run the validator on: a scanner with a platen only,
  and the request with every field unset.\<close>

definition platen_caps :: ScannerCapabilities where
  "platen_caps =
     \<lparr>Platen = Some \<lparr>Intents = {}, Profiles =
         [\<lparr>ColorModes = {ColorModeBinary, ColorModeMono, ColorModeColor}, Depths = {1},
           BinaryRenderings = {1}, CCDChannels = {}\<rparr>]\<rparr>,
      ADFSimplex = None, ADFDuplex = None,
      BrightnessRange = None, ContrastRange = None, GammaRange = None, HighlightRange = None,
      NoiseRemovalRange = None, ShadowRange = None, SharpenRange = None,
      ThresholdRange = Some \<lparr>rMin = 0, rMax = 255, rStep = 0\<rparr>, CompressionRange = None\<rparr>"

definition default_request :: ScannerRequest where
  "default_request =
     \<lparr>Input = InputUnset, ADFMode = ADFModeUnset, ColorMode = ColorModeUnset, Depth = DepthUnset,
      BinaryRendering = BinaryRenderingUnset, CCDChannel = CCDChannelUnset, DocumentFormat = [],
      Intent = 0, Brightness = None, Contrast = None, Gamma = None, Highlight = None,
      NoiseRemoval = None, Shadow = None, Sharpen = None, Threshold = None, Compression = None\<rparr>"

section \<open>escl: the eSCL server on top of an abstract scanner\<close>

text \<open>
  The job states are those of \<^verbatim>\<open>escl/jobstate.go\<close>, under the names the server uses
  for them.  Modelled from the spec: the declarations of the job state reasons, of the
  scanner states ("\<open>State \<in> {Idle, Processing, Testing, Stopped, Down}\<close>") and of the ADF
  states are not among the sources; the reasons and the ADF state listed are the ones the
  server names, \<open>ScannerAdfOther\<close> stands for the ADF states it never sets.
\<close>

datatype JobState =
  UnknownJobState | JobCanceled | JobAborted | JobCompleted | JobPending | JobProcessing

datatype JobStateReason =
  UnknownJobStateReason | JobCompletedSuccessfully | AbortedBySystem | JobCanceledByUser

datatype ScannerState =
  ScannerIdle | ScannerProcessing | ScannerTesting | ScannerStopped | ScannerDown

datatype ADFState = ScannerAdfProcessing | ScannerAdfOther nat

text \<open>The protocol version is a number; 0 means "not set".\<close>

type_synonym Version = nat

record JobInfo =
  JobURI :: string
  JobUUID :: "string option"
  JobState :: JobState
  JobStateReasons :: "JobStateReason list"

record ScannerStatus =
  Version :: Version
  State :: ScannerState
  ADFState :: "ADFState option"
  Jobs :: "JobInfo list"

text \<open>
  Modelled from the spec: \<^verbatim>\<open>PushJobInfo\<close> is not among the sources.  "\<open>ScannerStatus.Jobs\<close>
  is ordered newest-first" and "the server retains the last N jobs": the new job goes to
  the front and the list is cut to the history size.
\<close>

definition AbstractServerHistorySize :: nat where
  "AbstractServerHistorySize = 10"

definition PushJobInfo :: "ScannerStatus \<Rightarrow> JobInfo \<Rightarrow> nat \<Rightarrow> ScannerStatus" where
  "PushJobInfo status info maxhist = status\<lparr>Jobs := take maxhist (info # Jobs status)\<rparr>"

text \<open>
  Of the \<^verbatim>\<open>abstract.Scanner\<close> behind the server, the options record holds what
  \<^verbatim>\<open>Capabilities()\<close> returns.  What \<^verbatim>\<open>Scan\<close> and the document's \<^verbatim>\<open>Next\<close> return is
  given with each request, below.  The server holds the document being served, or none.
\<close>

record Scanner =
  Capabilities :: ScannerCapabilities

record AbstractServerOptions =
  OptVersion :: Version
  OptScanner :: Scanner
  BasePath :: string

record 'doc AbstractServer =
  options :: AbstractServerOptions
  caps :: ScannerCapabilities
  status :: ScannerStatus
  document :: "'doc option"

text \<open>
  An HTTP response: the status written by \<^verbatim>\<open>WriteHeader\<close>, the headers set, and the
  body.  An XML body stands for the encoding of the value it carries
  (\<^verbatim>\<open>status.ToXML()\<close>, or the capabilities converted for a version); the body of a
  rejection carries the status and the message of \<^verbatim>\<open>Reject\<close>.
\<close>

record DocumentFile =
  Format :: string
  content :: string

datatype xml = ScannerStatusXML ScannerStatus | ScannerCapabilitiesXML Version ScannerCapabilities

datatype body = NoBody | TextBody nat string | XMLBody xml | ImageBody string

record response =
  code :: nat
  header :: "(string \<times> string) list"
  body :: body

text \<open>
  A request: method, URL path, host and whether it came over TLS, together with the
  results of the calls the handlers make on it or on collaborators while serving it:
  decoding the body (\<^verbatim>\<open>xmldoc.Decode\<close>, then \<^verbatim>\<open>DecodeScanSettings\<close> and
  \<^verbatim>\<open>ToAbstract\<close>), \<^verbatim>\<open>uuid.Random()\<close>, \<^verbatim>\<open>Scanner.Scan\<close> and \<^verbatim>\<open>document.Next()\<close>.
  \<^verbatim>\<open>Scan\<close> returns an error or a document; the document is an interface value, and
  nothing keeps a scanner from returning the \<^verbatim>\<open>nil\<close> one without an error (\<open>Inr None\<close>).
\<close>

datatype request_body = MalformedXML string | InvalidScanSettings string | ScanSettings ScannerRequest

datatype next_result = NextFile DocumentFile | NextEOF | NextError string

record 'doc request =
  Method :: string
  Path :: string
  Host :: string
  TLS :: bool
  RequestBody :: request_body
  uuid_Random :: "string + string"
  Scan :: "string + 'doc option"
  Next :: next_result

text \<open>The run-time panics of the handlers: indexing \<^verbatim>\<open>Jobs[0]\<close> of an empty list and
  calling a method of the \<^verbatim>\<open>nil\<close> document.\<close>

datatype panic = IndexOutOfRange | NilDereference

text \<open>\<^verbatim>\<open>http.StatusText\<close> for the statuses the server uses, and the responses of the
  query methods \<^verbatim>\<open>Reject\<close>, \<^verbatim>\<open>Created\<close>, \<^verbatim>\<open>SendXML\<close> and \<^verbatim>\<open>SendImage\<close>.\<close>

definition StatusText :: "nat \<Rightarrow> string" where
  "StatusText st =
     (if st = 200 then ''OK'' else if st = 201 then ''Created''
      else if st = 400 then ''Bad Request'' else if st = 404 then ''Not Found''
      else if st = 409 then ''Conflict'' else if st = 501 then ''Not Implemented''
      else if st = 503 then ''Service Unavailable'' else [])"

definition NoCache :: "(string \<times> string) list" where
  "NoCache = [(''Cache-Control'', ''no-cache, no-store, must-revalidate''),
              (''Pragma'', ''no-cache''), (''Expires'', ''0'')]"

definition Reject :: "nat \<Rightarrow> string option \<Rightarrow> response" where
  "Reject st err =
     \<lparr>code = st,
      header = (''Content-Type'', ''text/plain; charset=utf-8'') # NoCache,
      body = TextBody st (case err of None \<Rightarrow> StatusText st | Some e \<Rightarrow> e)\<rparr>"

definition Created :: "'doc request \<Rightarrow> string \<Rightarrow> response" where
  "Created query joburi =
     \<lparr>code = 201,
      header = [(''Location'', (if TLS query then ''https'' else ''http'') @ ''://'' @ Host query @ joburi)],
      body = NoBody\<rparr>"

definition HTTPContentType :: string where
  "HTTPContentType = ''text/xml''"

definition SendXML :: "xml \<Rightarrow> response" where
  "SendXML x = \<lparr>code = 200, header = [(''Content-Type'', HTTPContentType)], body = XMLBody x\<rparr>"

definition SendImage :: "DocumentFile \<Rightarrow> response" where
  "SendImage file = \<lparr>code = 200, header = [(''Content-Type'', Format file)], body = ImageBody (content file)\<rparr>"

text \<open>
  \<^verbatim>\<open>path.Join\<close> and \<^verbatim>\<open>path.Clean\<close> of the Go library: the elements of the path are
  those between slashes; empty ones and \<^verbatim>\<open>.\<close> are dropped, \<^verbatim>\<open>..\<close> removes the
  element before it.
\<close>

primrec split_on :: "char \<Rightarrow> string \<Rightarrow> string list" where
  "split_on c [] = [[]]"
| "split_on c (x # xs) =
     (if x = c then [] # split_on c xs
      else (case split_on c xs of [] \<Rightarrow> [[x]] | w # ws \<Rightarrow> (x # w) # ws))"

primrec join_with :: "string \<Rightarrow> string list \<Rightarrow> string" where
  "join_with sep [] = []"
| "join_with sep (w # ws) = (if ws = [] then w else w @ sep @ join_with sep ws)"

definition clean_step :: "bool \<Rightarrow> string list \<Rightarrow> string \<Rightarrow> string list" where
  "clean_step rooted out elem =
     (if elem = [] \<or> elem = ''.'' then out
      else if elem = ''..'' then
        (if out \<noteq> [] \<and> last out \<noteq> ''..'' then butlast out
         else if rooted then out
         else out @ [''..''])
      else out @ [elem])"

definition path_Clean :: "string \<Rightarrow> string" where
  "path_Clean p =
     (case p of
        [] \<Rightarrow> ''.''
      | c # _ \<Rightarrow>
          (let rooted = (c = CHR ''/'');
               out = (if rooted then ''/'' else []) @
                     join_with ''/'' (foldl (clean_step rooted) [] (split_on CHR ''/'' p))
           in if out = [] then ''.'' else out))"

definition path_Join :: "string list \<Rightarrow> string" where
  "path_Join elems =
     (case filter (\<lambda>e. e \<noteq> []) elems of
        [] \<Rightarrow> []
      | e # es \<Rightarrow> path_Clean (join_with ''/'' (e # es)))"

text \<open>
  Modelled from the spec: \<^verbatim>\<open>transport.CleanURLPath\<close> is not among the sources.  "Paths
  are collapsed (\<^verbatim>\<open>//\<close> to \<^verbatim>\<open>/\<close>, \<^verbatim>\<open>.\<close> and \<^verbatim>\<open>..\<close> resolved); empty path becomes
  \<^verbatim>\<open>/\<close>"; a trailing slash is kept, as the server's matching of request paths needs.
  The server takes the function as a parameter; this one is used in the examples.
\<close>

definition CleanURLPath :: "string \<Rightarrow> string" where
  "CleanURLPath p =
     (let q = path_Clean (CHR ''/'' # p)
      in if q \<noteq> ''/'' \<and> p \<noteq> [] \<and> last p = CHR ''/'' then q @ ''/'' else q)"


text \<open>
  \<^verbatim>\<open>NewAbstractServer\<close>.  The constant \<^verbatim>\<open>DefaultVersion\<close> and the function
  \<^verbatim>\<open>transport.CleanURLPath\<close> are not among the sources and are parameters.
\<close>

definition NewAbstractServer ::
  "Version \<Rightarrow> (string \<Rightarrow> string) \<Rightarrow> AbstractServerOptions \<Rightarrow> 'doc AbstractServer" where
  "NewAbstractServer defaultVersion cleanURLPath opts =
     (let opts1 = (if OptVersion opts = 0 then opts\<lparr>OptVersion := defaultVersion\<rparr> else opts);
          opts2 = opts1\<lparr>BasePath := cleanURLPath (BasePath opts1 @ ''/'')\<rparr>;
          scancaps = Capabilities (OptScanner opts2);
          st = \<lparr>Version = OptVersion opts2, State = ScannerIdle, ADFState = None, Jobs = []\<rparr>
      in \<lparr>options = opts2, caps = scancaps,
          status = (if ADFSimplex scancaps \<noteq> None \<or> ADFDuplex scancaps \<noteq> None
                    then st\<lparr>ADFState := Some ScannerAdfProcessing\<rparr> else st),
          document = None\<rparr>)"

text \<open>The handlers.  Each returns the response and the server afterwards, or a panic.\<close>

definition getScannerCapabilities ::
  "'doc AbstractServer \<Rightarrow> 'doc request \<Rightarrow> panic + response \<times> 'doc AbstractServer" where
  "getScannerCapabilities srv query =
     Inr (SendXML (ScannerCapabilitiesXML (Version (status srv)) (caps srv)), srv)"

definition getScannerStatus ::
  "'doc AbstractServer \<Rightarrow> 'doc request \<Rightarrow> panic + response \<times> 'doc AbstractServer" where
  "getScannerStatus srv query = Inr (SendXML (ScannerStatusXML (status srv)), srv)"

definition postScanJobs ::
  "'doc AbstractServer \<Rightarrow> 'doc request \<Rightarrow> panic + response \<times> 'doc AbstractServer" where
  "postScanJobs srv query =
     (case RequestBody query of
        MalformedXML err \<Rightarrow> Inr (Reject 400 (Some err), srv)
      | InvalidScanSettings err \<Rightarrow> Inr (Reject 400 (Some err), srv)
      | ScanSettings absreq \<Rightarrow>
          if document srv \<noteq> None
          then Inr (Reject 503 (Some ''Device is busy with the previous request''), srv)
          else
            (case uuid_Random query of
               Inl err \<Rightarrow> Inr (Reject 503 (Some err), srv)
             | Inr jobuuid \<Rightarrow>
                 (case Scan query of
                    Inl err \<Rightarrow> Inr (Reject 409 (Some err), srv)
                  | Inr doc \<Rightarrow>
                      (let joburi = path_Join [BasePath (options srv), ''ScanJobs'', jobuuid];
                           info = \<lparr>JobURI = joburi, JobUUID = Some jobuuid,
                                   JobState = JobProcessing, JobStateReasons = []\<rparr>
                       in Inr (Created query joburi,
                               srv\<lparr>document := doc,
                                   status := PushJobInfo ((status srv)\<lparr>State := ScannerProcessing\<rparr>)
                                               info AbstractServerHistorySize\<rparr>)))))"

definition finish ::
  "'doc AbstractServer \<Rightarrow> JobState \<Rightarrow> JobStateReason \<Rightarrow> panic + 'doc AbstractServer" where
  "finish srv st reason =
     (case document srv of
        None \<Rightarrow> Inl NilDereference
      | Some doc \<Rightarrow>
          (case Jobs (status srv) of
             [] \<Rightarrow> Inl IndexOutOfRange
           | job # rest \<Rightarrow>
               (let job1 = job\<lparr>JobState := st\<rparr>;
                    job2 = (if reason \<noteq> UnknownJobStateReason
                            then job1\<lparr>JobStateReasons := [reason]\<rparr> else job1)
                in Inr (srv\<lparr>document := None,
                           status := (status srv)\<lparr>State := ScannerIdle, Jobs := job2 # rest\<rparr>\<rparr>))))"

definition getJobURINextDocument ::
  "'doc AbstractServer \<Rightarrow> 'doc request \<Rightarrow> panic + response \<times> 'doc AbstractServer" where
  "getJobURINextDocument srv query =
     (case document srv of
        None \<Rightarrow> Inl NilDereference
      | Some doc \<Rightarrow>
          (case Next query of
             NextEOF \<Rightarrow>
               (case finish srv JobCompleted JobCompletedSuccessfully of
                  Inl p \<Rightarrow> Inl p
                | Inr srv' \<Rightarrow> Inr (Reject 404 None, srv'))
           | NextError err \<Rightarrow>
               (case finish srv JobCanceled AbortedBySystem of
                  Inl p \<Rightarrow> Inl p
                | Inr srv' \<Rightarrow> Inr (Reject 503 (Some err), srv'))
           | NextFile file \<Rightarrow> Inr (SendImage file, srv)))"

definition getJobURIScanImageInfo ::
  "'doc AbstractServer \<Rightarrow> 'doc request \<Rightarrow> panic + response \<times> 'doc AbstractServer" where
  "getJobURIScanImageInfo srv query = Inr (Reject 501 None, srv)"

definition deleteJobURI ::
  "'doc AbstractServer \<Rightarrow> 'doc request \<Rightarrow> panic + response \<times> 'doc AbstractServer" where
  "deleteJobURI srv query =
     (case finish srv JobCanceled JobCanceledByUser of
        Inl p \<Rightarrow> Inl p
      | Inr srv' \<Rightarrow> Inr (\<lparr>code = 200, header = [], body = NoBody\<rparr>, srv'))"

text \<open>
  \<^verbatim>\<open>ServeHTTP\<close>: the request is dispatched on the path below the base path, then, if
  that chose no handler and a document is being served, on the URI of \<^verbatim>\<open>Jobs[0]\<close>.
\<close>

datatype action =
  NoAction | GetScannerCapabilities | GetScannerStatus | PostScanJobs
  | GetJobURINextDocument | GetJobURIScanImageInfo | DeleteJobURI

definition root_action :: "'doc request \<Rightarrow> string \<Rightarrow> action" where
  "root_action query path =
     (if path = ''ScannerCapabilities'' then
        (if Method query = ''GET'' then GetScannerCapabilities else NoAction)
      else if path = ''ScannerStatus'' then
        (if Method query = ''GET'' then GetScannerStatus else NoAction)
      else if path = ''ScanJobs'' then
        (if Method query = ''POST'' then PostScanJobs else NoAction)
      else NoAction)"

definition job_action :: "'doc request \<Rightarrow> string \<Rightarrow> action" where
  "job_action query joburi =
     (if Method query = ''GET'' then
        (if Path query = joburi @ ''/NextDocument'' then GetJobURINextDocument
         else if Path query = joburi @ ''/ScanImageInfo'' then GetJobURIScanImageInfo
         else NoAction)
      else if Method query = ''DELETE'' then
        (if Path query = joburi then DeleteJobURI else NoAction)
      else NoAction)"

definition perform ::
  "action \<Rightarrow> 'doc AbstractServer \<Rightarrow> 'doc request \<Rightarrow> panic + response \<times> 'doc AbstractServer" where
  "perform act srv query =
     (case act of
        NoAction \<Rightarrow> Inr (Reject 404 None, srv)
      | GetScannerCapabilities \<Rightarrow> getScannerCapabilities srv query
      | GetScannerStatus \<Rightarrow> getScannerStatus srv query
      | PostScanJobs \<Rightarrow> postScanJobs srv query
      | GetJobURINextDocument \<Rightarrow> getJobURINextDocument srv query
      | GetJobURIScanImageInfo \<Rightarrow> getJobURIScanImageInfo srv query
      | DeleteJobURI \<Rightarrow> deleteJobURI srv query)"

definition ServeHTTP ::
  "'doc AbstractServer \<Rightarrow> 'doc request \<Rightarrow> panic + response \<times> 'doc AbstractServer" where
  "ServeHTTP srv query =
     (if \<not> prefix (BasePath (options srv)) (Path query) then Inr (Reject 404 None, srv)
      else
        (let path = drop (length (BasePath (options srv))) (Path query);
             act = root_action query path
         in if act = NoAction \<and> document srv \<noteq> None then
              (case Jobs (status srv) of
                 [] \<Rightarrow> Inl IndexOutOfRange
               | job # _ \<Rightarrow> perform (job_action query (JobURI job)) srv query)
            else perform act srv query))"

text \<open>Serving a sequence of requests, one after the other.\<close>

fun serve_all :: "'doc AbstractServer \<Rightarrow> 'doc request list \<Rightarrow> panic + 'doc AbstractServer" where
  "serve_all srv [] = Inr srv"
| "serve_all srv (query # rest) =
     (case ServeHTTP srv query of
        Inl p \<Rightarrow> Inl p
      | Inr (resp, srv') \<Rightarrow> serve_all srv' rest)"

text \<open>
  A job is in progress when its state is \<^verbatim>\<open>JobProcessing\<close>.  \<open>single_job\<close> ties the
  document to the job list: without a document no job is in progress, with a document
  the first job is in progress and no other.
\<close>

definition processing :: "JobInfo \<Rightarrow> bool" where
  "processing job \<longleftrightarrow> JobState job = JobProcessing"

definition single_job :: "'doc AbstractServer \<Rightarrow> bool" where
  "single_job srv =
     (case document srv of
        None \<Rightarrow> filter processing (Jobs (status srv)) = []
      | Some doc \<Rightarrow>
          (case Jobs (status srv) of
             [] \<Rightarrow> False
           | job # rest \<Rightarrow> processing job \<and> filter processing rest = []))"

text \<open>Servers and requests for the examples.\<close>

definition feeder :: Scanner where
  "feeder = \<lparr>Capabilities = platen_caps\<lparr>ADFSimplex := Platen platen_caps\<rparr>\<rparr>"

definition sample_options :: AbstractServerOptions where
  "sample_options = \<lparr>OptVersion = 0, OptScanner = feeder, BasePath = ''/eSCL''\<rparr>"

definition sample_server :: "nat AbstractServer" where
  "sample_server = NewAbstractServer 2 CleanURLPath sample_options"

definition sample_post :: "nat request" where
  "sample_post =
     \<lparr>Method = ''POST'', Path = ''/eSCL/ScanJobs'', Host = ''localhost'', TLS = False,
      RequestBody = ScanSettings default_request, uuid_Random = Inr ''urn:uuid:1'',
      Scan = Inr (Some 1), Next = NextEOF\<rparr>"

definition sample_next :: "next_result \<Rightarrow> nat request" where
  "sample_next res =
     \<lparr>Method = ''GET'', Path = ''/eSCL/ScanJobs/urn:uuid:1/NextDocument'', Host = ''localhost'',
      TLS = False, RequestBody = MalformedXML [], uuid_Random = Inr ''urn:uuid:2'',
      Scan = Inr (Some 2), Next = res\<rparr>"

definition sample_status :: "nat request" where
  "sample_status =
     \<lparr>Method = ''GET'', Path = ''/eSCL/ScannerStatus'', Host = ''localhost'', TLS = False,
      RequestBody = MalformedXML [], uuid_Random = Inr ''urn:uuid:3'',
      Scan = Inr (Some 3), Next = NextEOF\<rparr>"

definition invalid_post :: "nat request" where
  "invalid_post = sample_post\<lparr>RequestBody := InvalidScanSettings ''missing Version''\<rparr>"

definition nil_post :: "string \<Rightarrow> nat request" where
  "nil_post jobuuid = sample_post\<lparr>uuid_Random := Inr jobuuid, Scan := Inr None\<rparr>"

definition sample_job :: JobInfo where
  "sample_job =
     \<lparr>JobURI = ''/eSCL/ScanJobs/urn:uuid:1'', JobUUID = Some ''urn:uuid:1'',
      JobState = JobProcessing, JobStateReasons = []\<rparr>"

definition busy_server :: "nat AbstractServer" where
  "busy_server =
     sample_server\<lparr>document := Some 1,
       status := (status sample_server)\<lparr>State := ScannerProcessing, Jobs := [sample_job]\<rparr>\<rparr>"

section \<open>internal/xml: the XML document model (decoder and encoder)\<close>

text \<open>
  The package reads and writes documents through the tokens of Go's \<^verbatim>\<open>encoding/xml\<close>: a
  name has a namespace (\<^verbatim>\<open>Space\<close>) and a local part, an attribute a name and a value,
  and a token is a start tag, an end tag, character data, a comment, a processing
  instruction or a directive.  Character data is a list of runes.
\<close>

record xml_Name =
  Space :: string
  Local :: string

record xml_Attr =
  AttrName :: xml_Name
  AttrValue :: string

datatype Token =
  StartElement xml_Name "xml_Attr list"
  | EndElement xml_Name
  | CharData "rune list"
  | Comment "rune list"
  | ProcInst string string
  | Directive string







text \<open>
  An element holds pointers to its parent and to its children, and \<^verbatim>\<open>Decode\<close> returns
  the elements as a slice of pointers.  The elements are kept in a list, and a pointer to
  an element is its index there: \<^verbatim>\<open>Decode\<close> only ever appends to the slice, so the index
  of an element is its place in the document order.
\<close>

record Attr =
  aName :: string
  aValue :: string

record Element =
  elName :: string
  elPath :: string
  elText :: "rune list"
  elAttrs :: "Attr list"
  elChildren :: "nat list"
  elParent :: "nat option"

text \<open>
  \<^verbatim>\<open>Decode\<close> (decoder of the package): the local variables of its loop are the elements
  found so far, the element that is open and the path of that element.  A start tag makes
  a new element, whose name is the local name behind the prefix that the namespace gives
  to the URL of the tag (\<^verbatim>\<open>-\<close> when it gives none), and appends it to the children of
  its parent, of the parent of its parent and so on; an end tag returns to the parent
  (and dereferences a nil pointer when no element is open); character data replaces
  the text of the open element by its trimmed form.  The reader either fails, and
  \<^verbatim>\<open>Decode\<close> returns its error, or delivers the tokens of the document.
\<close>

record decoder =
  elements :: "Element list"
  elem :: "nat option"
  path :: string



























































section \<open>Properties of the tokenizer\<close>

lemma Tokenize_total:
  "(\<exists>ts. Tokenize line = (Some ts, None)) \<or> Tokenize line = (None, Some UnterminatedString)"
  by (simp add: Tokenize_def tk_finish_def split: tkState.split)

text \<open>
  Claim C4.  On a line that ends inside a quoted string the documentation of
  \<^verbatim>\<open>Tokenize\<close> promises the error together with the tokens picked up so far.  The
  function returns the error with a \<^verbatim>\<open>nil\<close> slice instead: on the four runes
  \<^verbatim>\<open>a "b\<close> (97, 32, 34, 98) the token \<^verbatim>\<open>a\<close> that was already complete is lost.
\<close>

theorem Tokenize_unterminated_drops_tokens:
  "Tokenize [97, 32, 34, 98] = (None, Some UnterminatedString)"
  by (simp add: Tokenize_def tk_finish_def tk_step_def tk_init_def IsSpace_def utf8_def)

section \<open>Properties of the sub-command selection\<close>

lemma findSubCommand_loop_exact:
  "find (\<lambda>sc. Name sc = name) subs = Some sc \<Longrightarrow> findSubCommand_loop name subs inexact = [sc]"
  by (induction subs arbitrary: inexact) (auto split: if_splits)

lemma findSubCommand_loop_inexact:
  "find (\<lambda>sc. Name sc = name) subs = None \<Longrightarrow>
   findSubCommand_loop name subs inexact = inexact @ filter (\<lambda>sc. prefix name (Name sc)) subs"
  by (induction subs arbitrary: inexact) (auto split: if_splits)

text \<open>
  Claim C5.  \<^verbatim>\<open>handleSubCommand\<close> on a token \<open>arg\<close>: when a sub-command is named exactly
  \<open>arg\<close>, the first such sub-command is selected, whatever other names start with
  \<open>arg\<close>; otherwise, when exactly one sub-command name starts with \<open>arg\<close>, that one is
  selected; when more than one does, the result is the error "ambiguous sub-command";
  when none does, the error "unknown sub-command".
\<close>

theorem handleSubCommand_selects:
  fixes prs :: parser and arg :: string
  defines "subs \<equiv> SubCommands (cmd prs)"
  defines "cands \<equiv> filter (\<lambda>sc. prefix arg (Name sc)) subs"
  defines "chosen \<equiv> \<lambda>sc. Inr (prs\<lparr>subcmd := Some sc, subargv := drop (nextarg prs) (argv prs)\<rparr>)"
  shows "(find (\<lambda>sc. Name sc = arg) subs = Some sc \<longrightarrow> handleSubCommand prs arg = chosen sc) \<and>
         (find (\<lambda>sc. Name sc = arg) subs = None \<and> cands = [sc] \<longrightarrow>
            handleSubCommand prs arg = chosen sc) \<and>
         (find (\<lambda>sc. Name sc = arg) subs = None \<and> 1 < length cands \<longrightarrow>
            handleSubCommand prs arg = Inl (AmbiguousSubCommand arg)) \<and>
         (cands = [] \<longrightarrow> handleSubCommand prs arg = Inl (UnknownSubCommand arg))"
proof (intro conjI impI)
  assume "find (\<lambda>sc. Name sc = arg) subs = Some sc"
  then show "handleSubCommand prs arg = chosen sc"
    by (simp add: handleSubCommand_def findSubCommand_def findSubCommand_loop_exact
        subs_def chosen_def)
next
  assume "find (\<lambda>sc. Name sc = arg) subs = None \<and> cands = [sc]"
  then show "handleSubCommand prs arg = chosen sc"
    by (simp add: handleSubCommand_def findSubCommand_def findSubCommand_loop_inexact
        subs_def cands_def chosen_def)
next
  assume a: "find (\<lambda>sc. Name sc = arg) subs = None \<and> 1 < length cands"
  then obtain x y zs where "cands = x # y # zs"
    by (cases cands; cases "tl cands") auto
  with a show "handleSubCommand prs arg = Inl (AmbiguousSubCommand arg)"
    by (simp add: handleSubCommand_def findSubCommand_def findSubCommand_loop_inexact
        subs_def cands_def)
next
  assume c: "cands = []"
  have "find (\<lambda>sc. Name sc = arg) subs = None"
  proof (rule ccontr)
    assume "find (\<lambda>sc. Name sc = arg) subs \<noteq> None"
    then obtain sc where "sc \<in> set subs" "Name sc = arg"
      by (auto simp: find_None_iff)
    then have "sc \<in> set cands" by (simp add: cands_def)
    with c show False by simp
  qed
  with c show "handleSubCommand prs arg = Inl (UnknownSubCommand arg)"
    by (simp add: handleSubCommand_def findSubCommand_def findSubCommand_loop_inexact
        subs_def cands_def)
qed

text \<open>
  The theorem at a command with the sub-commands \<^verbatim>\<open>list\<close>, \<^verbatim>\<open>load\<close> and \<^verbatim>\<open>li\<close>:
  \<^verbatim>\<open>li\<close> selects the sub-command of that name although \<^verbatim>\<open>list\<close> starts with it,
  \<^verbatim>\<open>lo\<close> selects \<^verbatim>\<open>load\<close>, \<^verbatim>\<open>l\<close> is ambiguous and \<^verbatim>\<open>x\<close> is unknown.
\<close>

theorem handleSubCommand_selects_witness:
  "handleSubCommand sample_parser ''li'' =
     Inr (sample_parser\<lparr>subcmd := Some (Command ''li'' []), subargv := [''-v'']\<rparr>) \<and>
   handleSubCommand sample_parser ''lo'' =
     Inr (sample_parser\<lparr>subcmd := Some (Command ''load'' []), subargv := [''-v'']\<rparr>) \<and>
   handleSubCommand sample_parser ''l'' = Inl (AmbiguousSubCommand ''l'') \<and>
   handleSubCommand sample_parser ''x'' = Inl (UnknownSubCommand ''x'')"
  using handleSubCommand_selects [of "''li''" sample_parser "Command ''li'' []"]
    handleSubCommand_selects [of "''lo''" sample_parser "Command ''load'' []"]
    handleSubCommand_selects [of "''l''" sample_parser]
    handleSubCommand_selects [of "''x''" sample_parser]
  by (simp add: sample_parser_def)

section \<open>Properties of the auto-TLS listener\<close>

lemma rawconn_Read_retry:
  "set es \<subseteq> {EAGAIN, EWOULDBLOCK} \<Longrightarrow>
   rawconn_Read (map Failed es @ rest) (buf, err) =
     rawconn_Read rest (buf, if es = [] then err else Some (last es))"
  by (induction es arbitrary: err) auto

lemma detectTLSRawConn_first_byte:
  assumes "set es \<subseteq> {EAGAIN, EWOULDBLOCK}"
  shows "detectTLSRawConn (map Failed es @ Peeked (b # bs) # rest) = (b = 0x16, None)"
  using assms by (simp add: detectTLSRawConn_def rawconn_Read_retry)

text \<open>
  Claim C8.  A connection accepted by a listener that is open and stays open, whose
  descriptor can be peeked and whose first peeked byte is \<open>b\<close> (after any number of
  \<^verbatim>\<open>EAGAIN\<close>/\<^verbatim>\<open>EWOULDBLOCK\<close> retries), is appended to the encrypted queue when
  \<open>b = 0x16\<close> and to the plain queue for every other \<open>b\<close>; it is not closed and no
  error is returned.
\<close>

theorem acceptWait_classifies:
  assumes "\<not> closed atl"
    and "syscallconn c = SyscallConnOK"
    and "set es \<subseteq> {EAGAIN, EWOULDBLOCK}"
    and "peeks c = map Failed es @ Peeked (b # bs) # rest"
  shows "acceptWait atl (Inr c) False =
           (None,
            (if b = 0x16
             then atl\<lparr>pending := pending atl - {c}, encrypted := encrypted atl @ [c]\<rparr>
             else atl\<lparr>pending := pending atl - {c}, plain := plain atl @ [c]\<rparr>),
            {})"
  using assms
  by (simp add: acceptWait_def detectTLS_def detectTLSRawConn_first_byte push_def)

theorem acceptWait_classifies_witness:
  "acceptWait NewAutoTLSListener (Inr tls_conn) False =
     (None, NewAutoTLSListener\<lparr>encrypted := [tls_conn]\<rparr>, {}) \<and>
   acceptWait NewAutoTLSListener (Inr http_conn) False =
     (None, NewAutoTLSListener\<lparr>plain := [http_conn]\<rparr>, {})"
  using acceptWait_classifies [of NewAutoTLSListener tls_conn "[EAGAIN]" "0x16" "[0x03, 0x01]" "[]"]
    acceptWait_classifies [of NewAutoTLSListener http_conn "[]" "0x47" "[0x45, 0x54]" "[]"]
  by (simp add: NewAutoTLSListener_def tls_conn_def http_conn_def)

text \<open>
  Claim C10.  For a connection that does not implement \<^verbatim>\<open>SyscallConn()\<close>,
  \<^verbatim>\<open>detectTLS\<close> answers "plain" with no error whatever the peer would send (the
  outcomes \<open>ps\<close> of peeking are never consulted), and an open listener that stays open
  appends the connection to the plain queue.
\<close>

theorem detectTLS_without_SyscallConn:
  assumes "syscallconn c = NoSyscallConn"
  shows "detectTLS (c\<lparr>peeks := ps\<rparr>) = (False, None) \<and>
         (\<not> closed atl \<longrightarrow>
            acceptWait atl (Inr (c\<lparr>peeks := ps\<rparr>)) False =
              (None,
               atl\<lparr>pending := pending atl - {c\<lparr>peeks := ps\<rparr>},
                   plain := plain atl @ [c\<lparr>peeks := ps\<rparr>]\<rparr>,
               {}))"
  using assms by (simp add: acceptWait_def detectTLS_def push_def)

theorem detectTLS_without_SyscallConn_witness:
  "detectTLS pipe_conn = (False, None) \<and>
   acceptWait NewAutoTLSListener (Inr pipe_conn) False =
     (None, NewAutoTLSListener\<lparr>plain := [pipe_conn]\<rparr>, {})"
  using detectTLS_without_SyscallConn
    [of pipe_conn "[Peeked [0x16, 0x03, 0x01]]" NewAutoTLSListener]
  by (simp add: NewAutoTLSListener_def pipe_conn_def)

section \<open>Properties of the scheduler\<close>

lemma retransmit_shape:
  "retransmit tx sl = (evs, ex) \<Longrightarrow>
   \<exists>k. evs = replicate k schedSend \<and> k \<le> schedRetransmitSeriesLen - tx \<and>
       (case ex of Continue _ \<Rightarrow> k = schedRetransmitSeriesLen - tx | _ \<Rightarrow> 1 \<le> k)"
proof (induction sl arbitrary: tx evs ex)
  case Nil
  then show ?case by (auto split: if_splits intro: exI [of _ "Suc 0"] exI [of _ 0])
next
  case (Cons ok rest)
  show ?case
  proof (cases "tx < schedRetransmitSeriesLen \<and> ok")
    case False
    with Cons.prems show ?thesis
      by (auto split: if_splits intro: exI [of _ "Suc 0"] exI [of _ 0])
  next
    case True
    obtain evs' ex' where r: "retransmit (tx + 1) rest = (evs', ex')" by force
    from Cons.IH [OF r] obtain k where k: "evs' = replicate k schedSend"
      "k \<le> schedRetransmitSeriesLen - (tx + 1)"
      "(case ex' of Continue _ \<Rightarrow> k = schedRetransmitSeriesLen - (tx + 1) | _ \<Rightarrow> 1 \<le> k)"
      by blast
    from True r Cons.prems have e: "evs = schedSend # evs'" "ex = ex'" by auto
    show ?thesis
      using k e True by (intro exI [of _ "Suc k"]) (auto split: exit.splits)
  qed
qed

lemma fastIteration_shape:
  assumes "fastIteration r n sl clk = (evs, ex)"
  shows "\<exists>k. evs = block k \<and> 1 \<le> k \<and> k \<le> schedRetransmitSeriesLen \<and>
             (case ex of Continue _ \<Rightarrow> k = schedRetransmitSeriesLen | _ \<Rightarrow> True)"
proof -
  obtain evs0 ex0 where r: "retransmit 0 sl = (evs0, ex0)" by force
  from retransmit_shape [OF r] obtain k where k: "evs0 = replicate k schedSend"
    "k \<le> schedRetransmitSeriesLen"
    "(case ex0 of Continue _ \<Rightarrow> k = schedRetransmitSeriesLen | _ \<Rightarrow> 1 \<le> k)"
    by (cases ex0) auto
  from assms r have e: "evs = block k"
    by (auto simp: fastIteration_def block_def k Let_def
        split: exit.splits list.splits if_splits prod.splits option.splits bool.splits)
  have pos: "1 \<le> k" using k(3) by (cases ex0) (simp_all add: schedRetransmitSeriesLen_def)
  have "(case ex of Continue _ \<Rightarrow> k = schedRetransmitSeriesLen | _ \<Rightarrow> True)"
    using assms r k(3)
    by (auto simp: fastIteration_def Let_def
        split: exit.splits list.splits if_splits prod.splits option.splits bool.splits)
  with e pos k(2) show ?thesis by blast
qed

lemma paced_Cons_full: "paced ks \<Longrightarrow> paced (schedRetransmitSeriesLen # ks)"
  by (cases ks) (auto simp: paced_def schedRetransmitSeriesLen_def)

lemma paced_single: "1 \<le> k \<Longrightarrow> k \<le> schedRetransmitSeriesLen \<Longrightarrow> paced [k]"
  by (simp add: paced_def)

lemma paced_append_full:
  "list_all (\<lambda>k. k = schedRetransmitSeriesLen) ks \<Longrightarrow> paced ks' \<Longrightarrow> paced (ks @ ks')"
  by (induction ks) (auto simp: paced_Cons_full)

lemma full_paced: "list_all (\<lambda>k. k = schedRetransmitSeriesLen) ks \<Longrightarrow> paced ks"
  using paced_append_full [of ks "[]"] by (simp add: paced_def)

lemma fastSeries_shape:
  "fastSeries r n sl clk = (evs, ex) \<Longrightarrow>
   \<exists>ks. evs = concat (map block ks) \<and> paced ks \<and>
        (case ex of Continue _ \<Rightarrow> list_all (\<lambda>k. k = schedRetransmitSeriesLen) ks | _ \<Rightarrow> True)"
proof (induction r n sl clk arbitrary: evs ex rule: fastSeries.induct)
  case (1 resolve fastCnt sleeps clock)
  show ?case
  proof (cases "fastCnt < schedFastSeriesLen")
    case False
    with "1.prems" have "evs = []" "\<exists>st. ex = Continue st"
      by (auto simp: fastSeries.simps [of resolve fastCnt])
    then show ?thesis by (intro exI [of _ "[]"]) (auto simp: paced_def)
  next
    case True
    obtain evs1 ex1 where it: "fastIteration resolve fastCnt sleeps clock = (evs1, ex1)"
      by force
    from fastIteration_shape [OF it] obtain k where k: "evs1 = block k" "1 \<le> k"
      "k \<le> schedRetransmitSeriesLen"
      "(case ex1 of Continue _ \<Rightarrow> k = schedRetransmitSeriesLen | _ \<Rightarrow> True)"
      by blast
    show ?thesis
    proof (cases ex1)
      case (Continue st)
      obtain n1 sl1 clk1 where st: "st = (n1, sl1, clk1)" by (cases st) auto
      obtain evs2 ex2 where rec: "fastSeries resolve n1 sl1 clk1 = (evs2, ex2)" by force
      from "1.IH" [OF True it [symmetric] Continue st [symmetric] refl rec]
      obtain ks where ks: "evs2 = concat (map block ks)" "paced ks"
        "(case ex2 of Continue _ \<Rightarrow> list_all (\<lambda>k. k = schedRetransmitSeriesLen) ks | _ \<Rightarrow> True)"
        by blast
      from "1.prems" True it Continue st rec have e: "evs = evs1 @ evs2" "ex = ex2"
        by (simp_all add: fastSeries.simps [of resolve fastCnt])
      from k(4) Continue have kf: "k = schedRetransmitSeriesLen" by simp
      show ?thesis
        using e ks k(1) kf
        by (intro exI [of _ "schedRetransmitSeriesLen # ks"])
           (auto simp: paced_Cons_full split: exit.splits)
    next
      case Returned
      with "1.prems" True it have "evs = evs1" "ex = Returned"
        by (simp_all add: fastSeries.simps [of resolve fastCnt])
      with k show ?thesis by (intro exI [of _ "[k]"]) (simp add: paced_single)
    next
      case Blocked
      with "1.prems" True it have "evs = evs1" "ex = Blocked"
        by (simp_all add: fastSeries.simps [of resolve fastCnt])
      with k show ?thesis by (intro exI [of _ "[k]"]) (simp add: paced_single)
    qed
  qed
qed

lemma proc_shape:
  "proc r sl clk = (evs, ex) \<Longrightarrow> \<exists>ks. evs = concat (map block ks) \<and> paced ks"
proof (induction r sl clk arbitrary: evs ex rule: proc.induct)
  case (1 resolve sleeps clock)
  obtain evs1 ex1 where fs: "fastSeries resolve 0 sleeps clock = (evs1, ex1)" by force
  from fastSeries_shape [OF fs] obtain ks1 where ks1: "evs1 = concat (map block ks1)"
    "paced ks1"
    "(case ex1 of Continue _ \<Rightarrow> list_all (\<lambda>k. k = schedRetransmitSeriesLen) ks1 | _ \<Rightarrow> True)"
    by blast
  show ?case
  proof (cases "\<exists>sl' clk'. ex1 = Continue (True # sl', clk')")
    case False
    with "1.prems" fs have "evs = evs1"
      by (auto simp: proc.simps [of resolve sleeps] split: exit.splits list.splits if_splits)
    with ks1 show ?thesis by blast
  next
    case True
    then obtain sl' clk' where c: "ex1 = Continue (True # sl', clk')" by blast
    obtain evs2 ex2 where rec: "proc resolve sl' clk' = (evs2, ex2)" by force
    have "\<exists>ks. evs2 = concat (map block ks) \<and> paced ks"
      by (rule "1.IH" [OF fs [symmetric] c refl refl _ rec]) simp
    then obtain ks2 where ks2: "evs2 = concat (map block ks2)" "paced ks2" by blast
    from "1.prems" fs c rec have "evs = evs1 @ evs2"
      by (simp add: proc.simps [of resolve sleeps])
    moreover from ks1(3) c have "list_all (\<lambda>k. k = schedRetransmitSeriesLen) ks1" by simp
    ultimately show ?thesis
      using ks1(1) ks2 by (intro exI [of _ "ks1 @ ks2"]) (simp add: paced_append_full)
  qed
qed

lemma takeWhile_replicate_append:
  "takeWhile (\<lambda>e. e = x) (replicate k x @ rest) = replicate k x @ takeWhile (\<lambda>e. e = x) rest"
  by (induction k) auto

lemma dropWhile_replicate_append:
  "dropWhile (\<lambda>e. e = x) (replicate k x @ rest) = dropWhile (\<lambda>e. e = x) rest"
  by (induction k) auto

lemma series_lengths_block:
  assumes "series_lengths rest = Some ks" and "rest = [] \<or> hd rest = schedNewMessage"
  shows "series_lengths (block k @ rest) = Some (k # ks)"
proof -
  have "takeWhile (\<lambda>e. e = schedSend) (replicate k schedSend @ rest) = replicate k schedSend"
    using assms(2) by (cases rest) (auto simp: takeWhile_replicate_append)
  moreover
  have "dropWhile (\<lambda>e. e = schedSend) (replicate k schedSend @ rest) = rest"
    using assms(2) by (cases rest) (auto simp: dropWhile_replicate_append)
  ultimately show ?thesis using assms(1) by (simp add: block_def)
qed

lemma series_lengths_blocks: "series_lengths (concat (map block ks)) = Some ks"
proof (induction ks)
  case Nil
  show ?case by simp
next
  case (Cons k ks)
  have "concat (map block ks) = [] \<or> hd (concat (map block ks)) = schedNewMessage"
    by (cases ks) (simp_all add: block_def)
  from series_lengths_block [OF Cons this] show ?case by simp
qed

text \<open>
  Claim C7, as amended.  In browse mode, whatever the timer does, the events sent are a
  sequence of blocks, each a new message followed by sends; every block that is followed
  by another new message has exactly \<open>schedRetransmitSeriesLen\<close> sends, and the last
  block has at least one send and at most \<open>schedRetransmitSeriesLen\<close>.
\<close>

theorem proc_browse_paced:
  "\<exists>ks. series_lengths (fst (proc False sleeps clock)) = Some ks \<and>
        list_all (\<lambda>k. 1 \<le> k \<and> k \<le> schedRetransmitSeriesLen) ks \<and>
        list_all (\<lambda>k. k = schedRetransmitSeriesLen) (butlast ks)"
proof -
  obtain evs ex where p: "proc False sleeps clock = (evs, ex)" by force
  from proc_shape [OF p] obtain ks where "evs = concat (map block ks)" "paced ks" by blast
  with p show ?thesis by (intro exI [of _ ks]) (simp add: series_lengths_blocks paced_def)
qed

text \<open>
  Claim C7 as stated fails where it says that every new message is followed by its
  full series: when \<^verbatim>\<open>Close\<close> cancels the timer during the second pause, \<^verbatim>\<open>proc\<close>
  returns after a new message and two sends.
\<close>

theorem proc_browse_cancelled_series:
  "proc False [True, False] [] = ([schedNewMessage, schedSend, schedSend], Returned) \<and>
   series_lengths (fst (proc False [True, False] [])) = Some [2] \<and>
   (2::nat) \<noteq> schedRetransmitSeriesLen"
  by code_simp

section \<open>Properties of the request validator\<close>

lemma first_failure_Cons: "first_failure (r # rs) = or_else r (first_failure rs)"
  by (cases r) (simp_all add: first_failure_def or_else_def)

lemma first_failure_Nil: "first_failure [] = None"
  by (simp add: first_failure_def)

lemma or_else_None: "or_else r None = r"
  by (cases r) (simp_all add: or_else_def)

lemma or_else_assoc: "or_else (or_else a b) c = or_else a (or_else b c)"
  by (cases a) (simp_all add: or_else_def)

lemma supported_inputs_eq:
  "supported_inputs scancaps =
     (if Platen scancaps \<noteq> None then {InputPlaten} else {}) \<union>
     (if ADFSimplex scancaps \<noteq> None \<or> ADFDuplex scancaps \<noteq> None then {InputADF} else {})"
  by (auto simp: supported_inputs_def)

lemma supported_adfmodes_eq:
  "supported_adfmodes scancaps =
     (if ADFSimplex scancaps \<noteq> None then {ADFModeSimplex} else {}) \<union>
     (if ADFDuplex scancaps \<noteq> None then {ADFModeDuplex} else {})"
  by (auto simp: supported_adfmodes_def)

lemma first_failure_append:
  "first_failure (xs @ ys) = or_else (first_failure xs) (first_failure ys)"
  by (induction xs)
     (simp_all add: first_failure_Cons first_failure_Nil or_else_def split: option.split)

lemma first_failure_if:
  "first_failure (if c then xs else ys) = (if c then first_failure xs else first_failure ys)"
  by simp

lemma enum_rule_inline:
  "enum_rule name v unset bound supported =
     (if v = unset then None
      else if v < 0 \<or> v \<ge> bound then Some (ErrParam ErrInvalidParam name v)
      else if v \<notin> supported then Some (ErrParam ErrUnsupportedParam name v)
      else None)"
  by (simp add: enum_rule_def)

lemma if_ne_swap: "(if a \<noteq> b then x else y) = (if a = b then y else x)"
  by simp

text \<open>
  Claim C6, as amended.  \<^verbatim>\<open>Validate\<close> returns the first failure of the rules in their
  order: input, ADF mode (for the ADF input), color mode; then binary rendering and
  threshold when the color mode is binary, the depth when the color mode is mono or
  color, and neither of them for any other color mode (the unset one); then CCD channel
  and the image processing ranges.
\<close>

theorem Validate_first_failure:
  "Validate req scancaps = first_failure (rules_by_mode req scancaps)"
  unfolding Validate_def rules_by_mode_def rules_before_color_def rules_binary_def
    rules_depth_def rules_after_color_def Let_def
  by (simp only: first_failure_append first_failure_if first_failure_Cons first_failure_Nil
      or_else_None or_else_assoc enum_rule_inline supported_inputs_eq supported_adfmodes_eq
      if_ne_swap [of "Input req" InputADF])

theorem Validate_first_failure_witness:
  "Validate (default_request\<lparr>ColorMode := ColorModeMono, Depth := 99\<rparr>) platen_caps =
     Some (ErrParam ErrInvalidParam ''Depth'' 99) \<and>
   Validate (default_request\<lparr>ColorMode := ColorModeBinary, Depth := 99, Threshold := Some 300\<rparr>)
     platen_caps = Some (ErrParam ErrInvalidParam ''Threshold'' 300)"
  using Validate_first_failure
      [of "default_request\<lparr>ColorMode := ColorModeMono, Depth := 99\<rparr>" platen_caps]
    Validate_first_failure
      [of "default_request\<lparr>ColorMode := ColorModeBinary, Depth := 99, Threshold := Some 300\<rparr>"
        platen_caps]
  by (simp add: rules_by_mode_def rules_before_color_def rules_binary_def rules_depth_def
      rules_after_color_def platen_caps_def default_request_def first_failure_def
      enum_rule_def range_validate_def gather_def present_inputs_def
      InputUnset_def InputADF_def ColorModeUnset_def ColorModeBinary_def ColorModeMono_def
      ColorModeColor_def colorModeMax_def DepthUnset_def depthMax_def
      BinaryRenderingUnset_def CCDChannelUnset_def)

text \<open>
  Claim C6 as stated fails where it says "and otherwise \<open>Depth\<close> is validated": with the
  color mode unset and the depth 99, outside the enumeration, \<^verbatim>\<open>Validate\<close> accepts the
  request, while the rules as stated report the depth.
\<close>

theorem Validate_skips_depth_when_color_unset:
  "Validate (default_request\<lparr>Depth := 99\<rparr>) platen_caps = None \<and>
   first_failure (rules_as_stated (default_request\<lparr>Depth := 99\<rparr>) platen_caps) =
     Some (ErrParam ErrInvalidParam ''Depth'' 99)"
proof
  show "Validate (default_request\<lparr>Depth := 99\<rparr>) platen_caps = None"
    by (simp add: Validate_def Let_def or_else_def platen_caps_def default_request_def
      range_validate_def InputUnset_def InputADF_def ColorModeUnset_def ColorModeBinary_def
      ColorModeMono_def ColorModeColor_def CCDChannelUnset_def)
  show "first_failure (rules_as_stated (default_request\<lparr>Depth := 99\<rparr>) platen_caps) =
     Some (ErrParam ErrInvalidParam ''Depth'' 99)"
    by (simp add: rules_as_stated_def rules_before_color_def rules_depth_def
      rules_after_color_def platen_caps_def default_request_def first_failure_def
      enum_rule_def range_validate_def
      InputUnset_def InputADF_def ColorModeUnset_def ColorModeBinary_def
      DepthUnset_def depthMax_def CCDChannelUnset_def)
qed

section \<open>Properties of the eSCL server\<close>

lemma single_job_New: "single_job (NewAbstractServer dv clean opts)"
  by (simp add: single_job_def NewAbstractServer_def Let_def)

lemma filter_take_Nil: "filter P xs = [] \<Longrightarrow> filter P (take n xs) = []"
  by (auto simp: filter_empty_conv dest: in_set_takeD)

lemma single_job_post:
  assumes "single_job srv" and "postScanJobs srv query = Inr (resp, srv')"
    and "Scan query \<noteq> Inr None"
  shows "single_job srv'"
proof (cases "document srv")
  case (Some doc)
  with assms show ?thesis
    by (auto simp: postScanJobs_def split: request_body.splits)
next
  case None
  with assms(1) have np: "filter processing (Jobs (status srv)) = []"
    by (simp add: single_job_def)
  show ?thesis
  proof (cases "\<exists>absreq jobuuid doc. RequestBody query = ScanSettings absreq \<and>
      uuid_Random query = Inr jobuuid \<and> Scan query = Inr (Some doc)")
    case False
    with None assms have "srv' = srv"
      by (auto simp: postScanJobs_def split: request_body.splits sum.splits)
    with assms(1) show ?thesis by simp
  next
    case True
    then obtain absreq jobuuid doc where "RequestBody query = ScanSettings absreq"
      "uuid_Random query = Inr jobuuid" "Scan query = Inr (Some doc)" by blast
    with None assms(2) np show ?thesis
      by (auto simp: postScanJobs_def Let_def PushJobInfo_def single_job_def processing_def
          AbstractServerHistorySize_def filter_take_Nil
          split: list.splits)
  qed
qed

lemma single_job_finish:
  assumes "single_job srv" and "document srv \<noteq> None" and "st \<noteq> JobProcessing"
  shows "\<exists>srv'. finish srv st reason = Inr srv' \<and> single_job srv'"
proof -
  from assms(2) obtain doc where d: "document srv = Some doc" by auto
  with assms(1) obtain job rest where j: "Jobs (status srv) = job # rest"
    and np: "filter processing rest = []"
    by (auto simp: single_job_def split: list.splits)
  define job' where "job' = (if reason \<noteq> UnknownJobStateReason
    then job\<lparr>JobState := st, JobStateReasons := [reason]\<rparr> else job\<lparr>JobState := st\<rparr>)"
  have f: "finish srv st reason =
      Inr (srv\<lparr>document := None,
               status := (status srv)\<lparr>State := ScannerIdle, Jobs := job' # rest\<rparr>\<rparr>)"
    using d j by (simp add: finish_def Let_def job'_def)
  have "\<not> processing job'" using assms(3) by (simp add: job'_def processing_def)
  with np have "single_job (srv\<lparr>document := None,
               status := (status srv)\<lparr>State := ScannerIdle, Jobs := job' # rest\<rparr>\<rparr>)"
    by (simp add: single_job_def)
  with f show ?thesis by blast
qed

lemma single_job_perform:
  assumes "single_job srv"
    and "act \<in> {GetJobURINextDocument, DeleteJobURI} \<longrightarrow> document srv \<noteq> None"
    and "Scan query \<noteq> Inr None"
  shows "\<exists>resp srv'. perform act srv query = Inr (resp, srv') \<and> single_job srv'"
proof (cases act)
  case PostScanJobs
  obtain r where r: "postScanJobs srv query = r" by simp
  have "\<exists>resp srv'. r = Inr (resp, srv')"
    using r by (auto simp: postScanJobs_def Let_def split: request_body.splits sum.splits)
  then obtain resp srv' where "postScanJobs srv query = Inr (resp, srv')" using r by auto
  with single_job_post [OF assms(1) this assms(3)] PostScanJobs show ?thesis
    by (simp add: perform_def)
next
  case GetJobURINextDocument
  with assms(2) obtain doc where d: "document srv = Some doc" by auto
  from single_job_finish [OF assms(1), of JobCompleted JobCompletedSuccessfully]
    single_job_finish [OF assms(1), of JobCanceled AbortedBySystem] d
  obtain s1 s2 where "finish srv JobCompleted JobCompletedSuccessfully = Inr s1" "single_job s1"
    "finish srv JobCanceled AbortedBySystem = Inr s2" "single_job s2" by auto
  with GetJobURINextDocument d assms(1) show ?thesis
    by (cases "Next query") (simp_all add: perform_def getJobURINextDocument_def)
next
  case DeleteJobURI
  with assms(2) obtain doc where d: "document srv = Some doc" by auto
  from single_job_finish [OF assms(1), of JobCanceled JobCanceledByUser] d
  obtain s1 where "finish srv JobCanceled JobCanceledByUser = Inr s1" "single_job s1" by auto
  with DeleteJobURI show ?thesis by (simp add: perform_def deleteJobURI_def)
qed (use assms(1) in \<open>simp_all add: perform_def getScannerCapabilities_def getScannerStatus_def
       getJobURIScanImageInfo_def\<close>)

lemma root_action_not_job: "root_action query p \<notin> {GetJobURINextDocument, DeleteJobURI}"
  by (simp add: root_action_def)

lemma single_job_ServeHTTP:
  assumes "single_job srv" and "Scan query \<noteq> Inr None"
  shows "\<exists>resp srv'. ServeHTTP srv query = Inr (resp, srv') \<and> single_job srv'"
proof (cases "prefix (BasePath (options srv)) (Path query)")
  case False
  with assms show ?thesis by (simp add: ServeHTTP_def)
next
  case True
  define act where "act = root_action query (drop (length (BasePath (options srv))) (Path query))"
  show ?thesis
  proof (cases "act = NoAction \<and> document srv \<noteq> None")
    case False
    have "act \<in> {GetJobURINextDocument, DeleteJobURI} \<longrightarrow> document srv \<noteq> None"
      using root_action_not_job [of query] by (auto simp: act_def)
    from single_job_perform [OF assms(1) this assms(2)] True False show ?thesis
      by (auto simp: ServeHTTP_def Let_def act_def)
  next
    case busy: True
    then obtain doc where "document srv = Some doc" by auto
    with assms obtain job rest where j: "Jobs (status srv) = job # rest"
      by (auto simp: single_job_def split: list.splits)
    from single_job_perform [OF assms(1) _ assms(2), of "job_action query (JobURI job)"] busy
    have "\<exists>resp srv'. perform (job_action query (JobURI job)) srv query = Inr (resp, srv')
        \<and> single_job srv'" by simp
    with True busy j show ?thesis by (simp add: ServeHTTP_def Let_def act_def)
  qed
qed

lemma single_job_serve_all:
  "single_job srv \<Longrightarrow> \<forall>query \<in> set queries. Scan query \<noteq> Inr None \<Longrightarrow>
   \<exists>srv'. serve_all srv queries = Inr srv' \<and> single_job srv'"
proof (induction queries arbitrary: srv)
  case Nil
  then show ?case by simp
next
  case (Cons query rest)
  from Cons.prems have "Scan query \<noteq> Inr None" by simp
  from single_job_ServeHTTP [OF Cons.prems(1) this]
  obtain resp srv1 where "ServeHTTP srv query = Inr (resp, srv1)" "single_job srv1" by blast
  with Cons.IH [of srv1] Cons.prems(2) show ?case by simp
qed

lemma single_job_at_most_one:
  assumes "single_job srv"
  shows "length (filter processing (Jobs (status srv))) \<le> 1"
    and "i < length (Jobs (status srv)) \<Longrightarrow> processing (Jobs (status srv) ! i) \<Longrightarrow> i = 0"
    and "filter processing (Jobs (status srv)) \<noteq> [] \<Longrightarrow> document srv \<noteq> None"
proof -
  show "length (filter processing (Jobs (status srv))) \<le> 1"
    using assms by (auto simp: single_job_def split: option.splits list.splits)
  show "filter processing (Jobs (status srv)) \<noteq> [] \<Longrightarrow> document srv \<noteq> None"
    using assms by (auto simp: single_job_def split: option.splits list.splits)
  show "i = 0" if "i < length (Jobs (status srv))" "processing (Jobs (status srv) ! i)"
  proof (rule ccontr)
    assume "i \<noteq> 0"
    then obtain k where k: "i = Suc k" by (cases i) auto
    from that have "Jobs (status srv) ! i \<in> set (filter processing (Jobs (status srv)))"
      by simp
    moreover from that k obtain job rest where j: "Jobs (status srv) = job # rest"
      by (cases "Jobs (status srv)") auto
    ultimately show False
      using assms that k
      by (auto simp: single_job_def filter_empty_conv split: option.splits)
  qed
qed

text \<open>
  A \<^verbatim>\<open>POST\<close> of \<^verbatim>\<open>ScanJobs\<close> while a document is being served: the body is decoded
  first, so a body that does not decode is answered with 400 and the error of the
  decoder, and one that decodes to scan settings with 503 and the message of the busy
  device; the server stays as it is.
\<close>

lemma post_while_busy:
  assumes "document srv \<noteq> None" and "Method query = ''POST''"
    and "Path query = BasePath (options srv) @ ''ScanJobs''"
  shows "\<exists>resp. ServeHTTP srv query = Inr (resp, srv) \<and>
     code resp = (case RequestBody query of
                    ScanSettings absreq \<Rightarrow> 503 | MalformedXML err \<Rightarrow> 400
                  | InvalidScanSettings err \<Rightarrow> 400) \<and>
     header resp = [(''Content-Type'', ''text/plain; charset=utf-8''),
                    (''Cache-Control'', ''no-cache, no-store, must-revalidate''),
                    (''Pragma'', ''no-cache''), (''Expires'', ''0'')] \<and>
     body resp = TextBody (code resp)
                   (case RequestBody query of
                      ScanSettings absreq \<Rightarrow> ''Device is busy with the previous request''
                    | MalformedXML err \<Rightarrow> err | InvalidScanSettings err \<Rightarrow> err)"
  using assms
  by (cases "RequestBody query")
     (simp_all add: ServeHTTP_def Let_def root_action_def perform_def postScanJobs_def
        Reject_def NoCache_def)

text \<open>
  Claim C2, as amended.  Take a scanner whose \<^verbatim>\<open>Scan\<close> returns a document whenever it
  returns no error.  After any sequence of requests served by a new server, one after the
  other: no request panics, at most one job of the list is in progress, a job in progress
  is the first of the list, and while a job is in progress a \<^verbatim>\<open>POST\<close> of \<^verbatim>\<open>ScanJobs\<close>
  leaves the server, its status and its job list as they were; it is answered with the
  status code 503 and the message of the busy device when its body decodes to scan
  settings, and with 400 and the error of the decoder when it does not.
\<close>

theorem single_processing_job:
  fixes queries :: "'doc request list"
  assumes "\<forall>query \<in> set queries. Scan query \<noteq> Inr None"
  shows "\<exists>srv. serve_all (NewAbstractServer dv clean opts) queries = Inr srv \<and>
     length (filter processing (Jobs (status srv))) \<le> 1 \<and>
     (\<forall>i < length (Jobs (status srv)). processing (Jobs (status srv) ! i) \<longrightarrow> i = 0) \<and>
     (\<forall>query.
        filter processing (Jobs (status srv)) \<noteq> [] \<and> Method query = ''POST'' \<and>
        Path query = BasePath (options srv) @ ''ScanJobs'' \<longrightarrow>
        (\<exists>resp. ServeHTTP srv query = Inr (resp, srv) \<and>
           code resp = (case RequestBody query of
                          ScanSettings absreq \<Rightarrow> 503 | MalformedXML err \<Rightarrow> 400
                        | InvalidScanSettings err \<Rightarrow> 400) \<and>
           header resp = [(''Content-Type'', ''text/plain; charset=utf-8''),
                          (''Cache-Control'', ''no-cache, no-store, must-revalidate''),
                          (''Pragma'', ''no-cache''), (''Expires'', ''0'')] \<and>
           body resp = TextBody (code resp)
                         (case RequestBody query of
                            ScanSettings absreq \<Rightarrow> ''Device is busy with the previous request''
                          | MalformedXML err \<Rightarrow> err | InvalidScanSettings err \<Rightarrow> err)))"
proof -
  from single_job_serve_all [OF single_job_New assms, of dv clean opts]
  obtain srv :: "'doc AbstractServer"
    where run: "serve_all (NewAbstractServer dv clean opts) queries = Inr srv"
      and inv: "single_job srv" by blast
  have busy: "filter processing (Jobs (status srv)) \<noteq> [] \<Longrightarrow> document srv \<noteq> None"
    by (rule single_job_at_most_one(3) [OF inv])
  show ?thesis
  proof (intro exI [of _ srv] conjI allI impI)
    show "serve_all (NewAbstractServer dv clean opts) queries = Inr srv" by (rule run)
    show "length (filter processing (Jobs (status srv))) \<le> 1"
      by (rule single_job_at_most_one(1) [OF inv])
    show "i = 0" if "i < length (Jobs (status srv))" "processing (Jobs (status srv) ! i)" for i
      using single_job_at_most_one(2) [OF inv that] .
    fix query :: "'doc request"
    assume q: "filter processing (Jobs (status srv)) \<noteq> [] \<and> Method query = ''POST'' \<and>
        Path query = BasePath (options srv) @ ''ScanJobs''"
    with busy have "document srv \<noteq> None" by simp
    from post_while_busy [OF this] q
    show "\<exists>resp. ServeHTTP srv query = Inr (resp, srv) \<and>
           code resp = (case RequestBody query of
                          ScanSettings absreq \<Rightarrow> 503 | MalformedXML err \<Rightarrow> 400
                        | InvalidScanSettings err \<Rightarrow> 400) \<and>
           header resp = [(''Content-Type'', ''text/plain; charset=utf-8''),
                          (''Cache-Control'', ''no-cache, no-store, must-revalidate''),
                          (''Pragma'', ''no-cache''), (''Expires'', ''0'')] \<and>
           body resp = TextBody (code resp)
                         (case RequestBody query of
                            ScanSettings absreq \<Rightarrow> ''Device is busy with the previous request''
                          | MalformedXML err \<Rightarrow> err | InvalidScanSettings err \<Rightarrow> err)"
      by simp
  qed
qed

lemma NextDocument_dispatch:
  assumes "document srv = Some doc" and "Jobs (status srv) = job # rest"
    and "Method query = ''GET''" and "Path query = JobURI job @ ''/NextDocument''"
    and "prefix (BasePath (options srv)) (Path query)"
    and "drop (length (BasePath (options srv))) (Path query)
           \<notin> {''ScannerCapabilities'', ''ScannerStatus''}"
  shows "ServeHTTP srv query = getJobURINextDocument srv query"
  using assms by (simp add: ServeHTTP_def Let_def root_action_def job_action_def perform_def)

text \<open>
  The two outcomes of \<^verbatim>\<open>getJobURINextDocument\<close> that end the job.  On \<^verbatim>\<open>io.EOF\<close> the
  job is marked completed, the scanner idle, and the answer is 404.  On any other error
  the answer is 503 and the job is marked \<^verbatim>\<open>JobCanceled\<close>, with the reason
  \<^verbatim>\<open>AbortedBySystem\<close>.
\<close>

lemma NextDocument_EOF:
  assumes "document srv = Some doc" and "Jobs (status srv) = job # rest"
    and "Next query = NextEOF"
  shows "getJobURINextDocument srv query =
           Inr (Reject 404 None,
                srv\<lparr>document := None,
                    status := (status srv)\<lparr>State := ScannerIdle,
                      Jobs := job\<lparr>JobState := JobCompleted,
                                  JobStateReasons := [JobCompletedSuccessfully]\<rparr> # rest\<rparr>\<rparr>)"
  using assms by (simp add: getJobURINextDocument_def finish_def)

lemma NextDocument_error:
  assumes "document srv = Some doc" and "Jobs (status srv) = job # rest"
    and "Next query = NextError err"
  shows "getJobURINextDocument srv query =
           Inr (Reject 503 (Some err),
                srv\<lparr>document := None,
                    status := (status srv)\<lparr>State := ScannerIdle,
                      Jobs := job\<lparr>JobState := JobCanceled,
                                  JobStateReasons := [AbortedBySystem]\<rparr> # rest\<rparr>\<rparr>)"
  using assms by (simp add: getJobURINextDocument_def finish_def)

lemma CleanURLPath_sample: "CleanURLPath ''/eSCL/'' = ''/eSCL/''"
  by code_simp

lemma sample_server_BasePath: "BasePath (options sample_server) = ''/eSCL/''"
  by (simp add: sample_server_def NewAbstractServer_def Let_def sample_options_def
      CleanURLPath_sample)

lemma path_Join_sample:
  "path_Join [''/eSCL/'', ''ScanJobs'', ''urn:uuid:1''] = ''/eSCL/ScanJobs/urn:uuid:1''"
  by code_simp

lemma sample_server_status:
  "status sample_server =
     \<lparr>Version = 2, State = ScannerIdle, ADFState = Some ScannerAdfProcessing, Jobs = []\<rparr>"
  "document sample_server = None"
  by (simp_all add: sample_server_def NewAbstractServer_def Let_def sample_options_def
      feeder_def platen_caps_def)

lemma sample_post_busy: "ServeHTTP sample_server sample_post =
    Inr (Created sample_post ''/eSCL/ScanJobs/urn:uuid:1'', busy_server)"
  by (simp add: ServeHTTP_def Let_def sample_server_BasePath sample_post_def root_action_def
      perform_def postScanJobs_def sample_server_status path_Join_sample PushJobInfo_def
      AbstractServerHistorySize_def busy_server_def sample_job_def)

text \<open>
  Claim C1.  The claim says that an error of \<^verbatim>\<open>Next()\<close> other than \<^verbatim>\<open>io.EOF\<close> marks the
  job aborted.  On the server \<open>busy_server\<close>, which is serving the document of its only
  job, a \<^verbatim>\<open>GET\<close> of the job's \<^verbatim>\<open>NextDocument\<close> whose \<^verbatim>\<open>Next()\<close> fails with an I/O error is
  answered with 503 and leaves the job in the state \<^verbatim>\<open>JobCanceled\<close>, not
  \<^verbatim>\<open>JobAborted\<close>.
\<close>

theorem NextDocument_error_cancels:
  "ServeHTTP busy_server (sample_next (NextError ''I/O error'')) =
     Inr (Reject 503 (Some ''I/O error''),
          busy_server\<lparr>document := None,
            status := (status busy_server)\<lparr>State := ScannerIdle,
              Jobs := [sample_job\<lparr>JobState := JobCanceled,
                                   JobStateReasons := [AbortedBySystem]\<rparr>]\<rparr>\<rparr>) \<and>
   JobCanceled \<noteq> JobAborted"
proof -
  have d: "document busy_server = Some 1" "Jobs (status busy_server) = [sample_job]"
    "BasePath (options busy_server) = ''/eSCL/''"
    using sample_server_BasePath by (simp_all add: busy_server_def)
  have "ServeHTTP busy_server (sample_next (NextError ''I/O error'')) =
      getJobURINextDocument busy_server (sample_next (NextError ''I/O error''))"
    by (rule NextDocument_dispatch [OF d(1) d(2)])
       (simp_all add: d(3) sample_next_def sample_job_def)
  with NextDocument_error [OF d(1) d(2), of "sample_next (NextError ''I/O error'')" "''I/O error''"]
  show ?thesis by (simp add: sample_next_def)
qed

text \<open>
  Claim C9.  On a server just made by \<^verbatim>\<open>NewAbstractServer\<close> for a scanner whose
  capabilities have a simplex or a duplex ADF, a \<^verbatim>\<open>GET\<close> of \<^verbatim>\<open>ScannerStatus\<close> under the
  server's base path is answered with 200 and the XML of a status with the state idle,
  the ADF state processing and no jobs; the server is unchanged.
\<close>

theorem fresh_server_ScannerStatus:
  assumes "ADFSimplex (Capabilities (OptScanner opts)) \<noteq> None \<or>
           ADFDuplex (Capabilities (OptScanner opts)) \<noteq> None"
    and "srv = NewAbstractServer dv clean opts"
    and "Method query = ''GET''"
    and "Path query = BasePath (options srv) @ ''ScannerStatus''"
  shows "ServeHTTP srv query =
           Inr (\<lparr>code = 200, header = [(''Content-Type'', ''text/xml'')],
                 body = XMLBody (ScannerStatusXML
                   \<lparr>Version = (if OptVersion opts = 0 then dv else OptVersion opts),
                    State = ScannerIdle, ADFState = Some ScannerAdfProcessing, Jobs = []\<rparr>)\<rparr>,
                srv)"
proof -
  have st: "status srv =
      \<lparr>Version = (if OptVersion opts = 0 then dv else OptVersion opts),
       State = ScannerIdle, ADFState = Some ScannerAdfProcessing, Jobs = []\<rparr>"
    using assms(1) by (auto simp: assms(2) NewAbstractServer_def Let_def)
  have "ServeHTTP srv query = getScannerStatus srv query"
    using assms(3,4) by (simp add: ServeHTTP_def Let_def root_action_def perform_def)
  with st show ?thesis by (simp add: getScannerStatus_def SendXML_def HTTPContentType_def)
qed

theorem fresh_server_ScannerStatus_witness:
  "ServeHTTP sample_server sample_status =
     Inr (\<lparr>code = 200, header = [(''Content-Type'', ''text/xml'')],
           body = XMLBody (ScannerStatusXML
             \<lparr>Version = 2, State = ScannerIdle, ADFState = Some ScannerAdfProcessing,
              Jobs = []\<rparr>)\<rparr>,
          sample_server)"
proof -
  have adf: "ADFSimplex (Capabilities (OptScanner sample_options)) \<noteq> None \<or>
             ADFDuplex (Capabilities (OptScanner sample_options)) \<noteq> None"
    by (simp add: sample_options_def feeder_def platen_caps_def)
  have rq: "Method sample_status = ''GET''"
    "Path sample_status = BasePath (options sample_server) @ ''ScannerStatus''"
    by (simp_all add: sample_status_def sample_server_BasePath)
  from fresh_server_ScannerStatus [OF adf sample_server_def rq]
  show ?thesis by (simp add: sample_options_def)
qed

theorem single_processing_job_witness:
  "Scan sample_post \<noteq> Inr None \<and>
   serve_all sample_server [sample_post] = Inr busy_server \<and>
   length (filter processing (Jobs (status busy_server))) \<le> 1 \<and>
   ServeHTTP busy_server sample_post =
     Inr (\<lparr>code = 503,
           header = [(''Content-Type'', ''text/plain; charset=utf-8''),
                     (''Cache-Control'', ''no-cache, no-store, must-revalidate''),
                     (''Pragma'', ''no-cache''), (''Expires'', ''0'')],
           body = TextBody 503 ''Device is busy with the previous request''\<rparr>,
          busy_server)"
proof -
  have scan: "\<forall>query \<in> set [sample_post]. Scan query \<noteq> Inr None"
    by (simp add: sample_post_def)
  have run: "serve_all sample_server [sample_post] = Inr busy_server"
    by (simp add: sample_post_busy)
  have busy: "filter processing (Jobs (status busy_server)) \<noteq> []"
    by (simp add: busy_server_def sample_job_def processing_def)
  have rq: "Method sample_post = ''POST''"
    "Path sample_post = BasePath (options busy_server) @ ''ScanJobs''"
    "RequestBody sample_post = ScanSettings default_request"
    using sample_server_BasePath by (simp_all add: sample_post_def busy_server_def)
  from single_processing_job [OF scan, of 2 CleanURLPath sample_options]
  have "length (filter processing (Jobs (status busy_server))) \<le> 1 \<and>
    (\<exists>resp. ServeHTTP busy_server sample_post = Inr (resp, busy_server) \<and>
       code resp = 503 \<and>
       header resp = [(''Content-Type'', ''text/plain; charset=utf-8''),
                      (''Cache-Control'', ''no-cache, no-store, must-revalidate''),
                      (''Pragma'', ''no-cache''), (''Expires'', ''0'')] \<and>
       body resp = TextBody (code resp) ''Device is busy with the previous request'')"
    unfolding sample_server_def [symmetric] run
    using busy rq by auto
  then obtain resp where len: "length (filter processing (Jobs (status busy_server))) \<le> 1"
    and served: "ServeHTTP busy_server sample_post = Inr (resp, busy_server)"
    and parts: "code resp = 503"
      "header resp = [(''Content-Type'', ''text/plain; charset=utf-8''),
                      (''Cache-Control'', ''no-cache, no-store, must-revalidate''),
                      (''Pragma'', ''no-cache''), (''Expires'', ''0'')]"
      "body resp = TextBody (code resp) ''Device is busy with the previous request''"
    by blast
  from parts have "resp = \<lparr>code = 503,
           header = [(''Content-Type'', ''text/plain; charset=utf-8''),
                     (''Cache-Control'', ''no-cache, no-store, must-revalidate''),
                     (''Pragma'', ''no-cache''), (''Expires'', ''0'')],
           body = TextBody 503 ''Device is busy with the previous request''\<rparr>"
    by (cases resp) simp
  with scan run len served show ?thesis by simp
qed

text \<open>
  Claim C2 as stated fails in two places.  While a job is in progress, a \<^verbatim>\<open>POST\<close> of
  \<^verbatim>\<open>ScanJobs\<close> with a body that is well-formed XML but no valid scan settings is answered
  with 400, not 503: the body is decoded before the server looks at its document.  And a
  scanner whose \<^verbatim>\<open>Scan\<close> returns the \<^verbatim>\<open>nil\<close> document without an error leaves the server
  with a job in progress and no document, so that the next \<^verbatim>\<open>POST\<close> is accepted and two
  jobs of the list are in progress.
\<close>

theorem post_while_busy_invalid_or_nil_document:
  "ServeHTTP busy_server invalid_post =
     Inr (\<lparr>code = 400,
           header = [(''Content-Type'', ''text/plain; charset=utf-8''),
                     (''Cache-Control'', ''no-cache, no-store, must-revalidate''),
                     (''Pragma'', ''no-cache''), (''Expires'', ''0'')],
           body = TextBody 400 ''missing Version''\<rparr>,
          busy_server) \<and>
   filter processing (Jobs (status busy_server)) \<noteq> [] \<and>
   (case serve_all sample_server [nil_post ''urn:uuid:1'', nil_post ''urn:uuid:2''] of
      Inl p \<Rightarrow> []
    | Inr srv \<Rightarrow> map JobState (Jobs (status srv))) = [JobProcessing, JobProcessing]"
proof (intro conjI)
  have rq: "Method invalid_post = ''POST''"
    "Path invalid_post = BasePath (options busy_server) @ ''ScanJobs''"
    "RequestBody invalid_post = InvalidScanSettings ''missing Version''"
    using sample_server_BasePath by (simp_all add: invalid_post_def sample_post_def busy_server_def)
  show "ServeHTTP busy_server invalid_post =
     Inr (\<lparr>code = 400,
           header = [(''Content-Type'', ''text/plain; charset=utf-8''),
                     (''Cache-Control'', ''no-cache, no-store, must-revalidate''),
                     (''Pragma'', ''no-cache''), (''Expires'', ''0'')],
           body = TextBody 400 ''missing Version''\<rparr>,
          busy_server)"
    using rq
    by (simp add: ServeHTTP_def Let_def root_action_def perform_def postScanJobs_def
        Reject_def NoCache_def)
  show "filter processing (Jobs (status busy_server)) \<noteq> []"
    by (simp add: busy_server_def sample_job_def processing_def)
  have join: "path_Join [''/eSCL/'', ''ScanJobs'', ''urn:uuid:2''] = ''/eSCL/ScanJobs/urn:uuid:2''"
    by code_simp
  define srv1 where "srv1 = sample_server\<lparr>document := None,
       status := (status sample_server)\<lparr>State := ScannerProcessing, Jobs := [sample_job]\<rparr>\<rparr>"
  have first: "ServeHTTP sample_server (nil_post ''urn:uuid:1'') =
      Inr (Created (nil_post ''urn:uuid:1'') ''/eSCL/ScanJobs/urn:uuid:1'', srv1)"
    by (simp add: ServeHTTP_def Let_def sample_server_BasePath nil_post_def sample_post_def
        root_action_def perform_def postScanJobs_def sample_server_status path_Join_sample
        PushJobInfo_def AbstractServerHistorySize_def srv1_def sample_job_def)
  have srv1: "document srv1 = None" "BasePath (options srv1) = ''/eSCL/''"
    "Jobs (status srv1) = [sample_job]"
    using sample_server_BasePath by (simp_all add: srv1_def)
  have "\<exists>resp srv2. ServeHTTP srv1 (nil_post ''urn:uuid:2'') = Inr (resp, srv2) \<and>
      map JobState (Jobs (status srv2)) = [JobProcessing, JobProcessing]"
    by (simp add: ServeHTTP_def Let_def srv1 nil_post_def sample_post_def
        root_action_def perform_def postScanJobs_def join
        PushJobInfo_def AbstractServerHistorySize_def sample_job_def)
  with first show "(case serve_all sample_server [nil_post ''urn:uuid:1'', nil_post ''urn:uuid:2''] of
      Inl p \<Rightarrow> []
    | Inr srv \<Rightarrow> map JobState (Jobs (status srv))) = [JobProcessing, JobProcessing]"
    by auto
qed

section \<open>Properties of the XML document model\<close>































































end
